theory Spec2Isabelle
  imports Main
begin

section \<open>Strings and the JavaScript string primitives the build script uses\<close>

text \<open>
  A JavaScript string is modelled by the list of the bytes of its UTF-8 encoding. Every
  delimiter the script looks for is ASCII, and an ASCII byte never occurs inside the
  encoding of another code point, so the patterns below see the same matches on the bytes
  as the script sees on UTF-16 code units. Case-insensitive matching (\<open>/i\<close> without
  \<open>/u\<close>) and \<open>toLowerCase\<close> are compared against ASCII literals only, where just the
  letters A-Z fold.
\<close>

definition bslash :: char where
  "bslash = CHR 0x5C"

definition squote :: char where
  "squote = CHR 0x27"

definition lower_char :: "char \<Rightarrow> char" where
  "lower_char c = (let n = (of_char c :: nat) in if 65 \<le> n \<and> n \<le> 90 then char_of (n + 32) else c)"

definition toLowerCase :: "string \<Rightarrow> string" where
  "toLowerCase s = map lower_char s"

text \<open>\<open>s.startsWith(p)\<close>.\<close>

fun startsWith :: "string \<Rightarrow> string \<Rightarrow> bool" where
  "startsWith s [] = True"
| "startsWith [] (p # ps) = False"
| "startsWith (c # cs) (p # ps) = (c = p \<and> startsWith cs ps)"

text \<open>\<open>s.endsWith(p)\<close>.\<close>

definition endsWith :: "string \<Rightarrow> string \<Rightarrow> bool" where
  "endsWith s p = startsWith (rev s) (rev p)"

text \<open>A literal pattern under the \<open>i\<close> flag, matched at the head of the text.\<close>

fun ci_prefix :: "string \<Rightarrow> string \<Rightarrow> bool" where
  "ci_prefix [] s = True"
| "ci_prefix (p # ps) [] = False"
| "ci_prefix (p # ps) (c # cs) = (lower_char p = lower_char c \<and> ci_prefix ps cs)"

text \<open>\<open>/lit/i.test(s)\<close>: the literal occurs somewhere in the text.\<close>

fun ci_contains :: "string \<Rightarrow> string \<Rightarrow> bool" where
  "ci_contains p [] = ci_prefix p []"
| "ci_contains p (c # cs) = (ci_prefix p (c # cs) \<or> ci_contains p cs)"

text \<open>
  The first occurrence of a literal under the \<open>i\<close> flag: the text before it and the text
  after it. This is what a lazy \<open>[\s\S]*?\<close> followed by the literal consumes.
\<close>

fun ci_find :: "string \<Rightarrow> string \<Rightarrow> (string \<times> string) option" where
  "ci_find p [] = (if p = [] then Some ([], []) else None)"
| "ci_find p (c # cs) =
     (if ci_prefix p (c # cs) then Some ([], drop (length p) (c # cs))
      else (case ci_find p cs of None \<Rightarrow> None | Some (b, r) \<Rightarrow> Some (c # b, r)))"

text \<open>The first occurrence of a literal, case-sensitive (\<open>indexOf\<close>).\<close>

fun find_sub :: "string \<Rightarrow> string \<Rightarrow> (string \<times> string) option" where
  "find_sub p [] = (if p = [] then Some ([], []) else None)"
| "find_sub p (c # cs) =
     (if startsWith (c # cs) p then Some ([], drop (length p) (c # cs))
      else (case find_sub p cs of None \<Rightarrow> None | Some (b, r) \<Rightarrow> Some (c # b, r)))"

text \<open>
  \<open>GetSubstitution\<close> for a replacement string when the pattern has no capture groups:
  \<open>$$\<close> is a dollar, \<open>$&\<close> the matched text, \<open>$`\<close> the text before the match,
  \<open>$'\<close> the text after it; every other character, and a dollar before anything else,
  is copied.
\<close>

fun get_substitution :: "string \<Rightarrow> string \<Rightarrow> string \<Rightarrow> string \<Rightarrow> string" where
  "get_substitution m b a [] = []"
| "get_substitution m b a [c] = [c]"
| "get_substitution m b a (c # d # r) =
     (if c = CHR ''$'' then
        (if d = CHR ''$'' then CHR ''$'' # get_substitution m b a r
         else if d = CHR ''&'' then m @ get_substitution m b a r
         else if d = CHR ''`'' then b @ get_substitution m b a r
         else if d = squote then a @ get_substitution m b a r
         else c # get_substitution m b a (d # r))
      else c # get_substitution m b a (d # r))"

text \<open>\<open>s.replace(pat, repl)\<close> with a string pattern and a string replacement: the first
  occurrence only, the replacement expanded by \<open>GetSubstitution\<close>.\<close>

definition js_replace :: "string \<Rightarrow> string \<Rightarrow> string \<Rightarrow> string" where
  "js_replace pat repl s =
     (case find_sub pat s of
        None \<Rightarrow> s
      | Some (b, a) \<Rightarrow> b @ get_substitution pat b a repl @ a)"

text \<open>\<open>xs.join(sep)\<close>.\<close>

fun join :: "string \<Rightarrow> string list \<Rightarrow> string" where
  "join sep [] = []"
| "join sep [x] = x"
| "join sep (x # y # r) = x @ sep @ join sep (y # r)"

text \<open>Decimal rendering of an array index, as a template literal prints it.\<close>

definition digit_char :: "nat \<Rightarrow> char" where
  "digit_char n = char_of (48 + n)"

function show_nat :: "nat \<Rightarrow> string" where
  "show_nat n = (if n < 10 then [digit_char n] else show_nat (n div 10) @ [digit_char (n mod 10)])"
  by pat_completeness auto
termination
  by (relation "measure id") auto

declare show_nat.simps [simp del]

section \<open>Node's \<open>path.extname\<close> (POSIX)\<close>

record ext_state =
  startDot :: int
  startPart :: nat
  endPos :: int
  matchedSlash :: bool
  preDotState :: int

text \<open>The loop of \<open>extname\<close> runs from the last character to the first; the second
  argument is \<open>i + 1\<close>. A path separator met after the first other character ends it.\<close>

fun extname_loop :: "string \<Rightarrow> nat \<Rightarrow> ext_state \<Rightarrow> ext_state" where
  "extname_loop p 0 st = st"
| "extname_loop p (Suc i) st =
     (if p ! i = CHR ''/'' then
        (if \<not> matchedSlash st then st\<lparr>startPart := Suc i\<rparr> else extname_loop p i st)
      else
        (let st1 = (if endPos st = - 1 then st\<lparr>endPos := int (Suc i), matchedSlash := False\<rparr> else st);
             st2 = (if p ! i = CHR ''.'' then
                      (if startDot st1 = - 1 then st1\<lparr>startDot := int i\<rparr>
                       else if preDotState st1 \<noteq> 1 then st1\<lparr>preDotState := 1\<rparr>
                       else st1)
                    else if startDot st1 \<noteq> - 1 then st1\<lparr>preDotState := - 1\<rparr>
                    else st1)
         in extname_loop p i st2))"

definition extname :: "string \<Rightarrow> string" where
  "extname p =
     (let st = extname_loop p (length p)
                 \<lparr>startDot = - 1, startPart = 0, endPos = - 1, matchedSlash = True, preDotState = 0\<rparr>
      in if startDot st = - 1 \<or> endPos st = - 1 \<or> preDotState st = 0 \<or>
            (preDotState st = 1 \<and> startDot st = endPos st - 1 \<and> startDot st = int (startPart st) + 1)
         then []
         else drop (nat (startDot st)) (take (nat (endPos st)) p))"

section \<open>The image rewriter: \<open>processImages\<close>\<close>

subsection \<open>Step 1: protecting the picture blocks already there\<close>

text \<open>
  \<open>/<picture[\s\S]*?<\/picture>/gi\<close> at the head of the text: the opening literal, then
  the shortest text up to the first closing literal. The result is the length of the match.
\<close>

definition match_picture :: "string \<Rightarrow> nat option" where
  "match_picture s =
     (if ci_prefix ''<picture'' s then
        (case ci_find ''</picture>'' (drop 8 s) of
           None \<Rightarrow> None
         | Some (body, r) \<Rightarrow> Some (8 + length body + 10))
      else None)"

definition placeholder :: "nat \<Rightarrow> string" where
  "placeholder i = ''__PICTURE_PLACEHOLDER_'' @ show_nat i @ ''__''"

text \<open>
  The global replace with a callback: the text is scanned from the left, a match is
  pushed on \<open>pictureBlocks\<close> and replaced by the placeholder of its index, and the scan
  goes on behind the match. The result is the final \<open>pictureBlocks\<close> and the new text.
\<close>

function protect_pictures :: "string list \<Rightarrow> string \<Rightarrow> string list \<times> string" where
  "protect_pictures blocks [] = (blocks, [])"
| "protect_pictures blocks (c # cs) =
     (case match_picture (c # cs) of
        Some n \<Rightarrow>
          (let (bs, out) = protect_pictures (blocks @ [take n (c # cs)]) (drop n (c # cs))
           in (bs, placeholder (length blocks) @ out))
      | None \<Rightarrow>
          (let (bs, out) = protect_pictures blocks cs in (bs, c # out)))"
  by pat_completeness auto
termination
  by (relation "measure (\<lambda>(blocks, s). length s)")
    (auto simp: match_picture_def split: if_splits option.splits)

subsection \<open>Step 2: the \<open>img\<close> pattern\<close>

definition is_quote :: "char \<Rightarrow> bool" where
  "is_quote c = (c = CHR 0x22 \<or> c = squote)"

text \<open>
  The pattern is \<open>/<img([^>]*)src=["']([^"']+)["']([^>]*)>/gi\<close>.
  Behind the first group the match is forced: \<open>src=\<close> and a quote, then the second group
  is the whole run of characters that are not quotes (a shorter one is followed by a
  character that is not a quote), it is not empty and a quote follows it; the third group
  is the whole run of characters other than \<open>>\<close>, and \<open>>\<close> follows it.
\<close>

definition match_src_tail :: "string \<Rightarrow> (string \<times> string) option" where
  "match_src_tail s =
     (if ci_prefix ''src='' s then
        (case drop 4 s of
           [] \<Rightarrow> None
         | q # r \<Rightarrow>
             if \<not> is_quote q then None
             else
               (let src = takeWhile (\<lambda>c. \<not> is_quote c) r;
                    r2 = dropWhile (\<lambda>c. \<not> is_quote c) r
                in if src = [] then None
                   else
                     (case r2 of
                        [] \<Rightarrow> None
                      | q2 # r3 \<Rightarrow>
                          (let after = takeWhile (\<lambda>c. c \<noteq> CHR ''>'') r3;
                               r4 = dropWhile (\<lambda>c. c \<noteq> CHR ''>'') r3
                           in (case r4 of [] \<Rightarrow> None | g # r5 \<Rightarrow> Some (src, after))))))
      else None)"

text \<open>
  The first group is greedy: it first takes every character up to the next \<open>>\<close> and
  gives them back one by one until the rest of the pattern matches. The second argument
  is the length the group tries.
\<close>

fun match_before :: "string \<Rightarrow> nat \<Rightarrow> (string \<times> string \<times> string) option" where
  "match_before r 0 =
     (case match_src_tail r of None \<Rightarrow> None | Some (src, a) \<Rightarrow> Some ([], src, a))"
| "match_before r (Suc j) =
     (case match_src_tail (drop (Suc j) r) of
        None \<Rightarrow> match_before r j
      | Some (src, a) \<Rightarrow> Some (take (Suc j) r, src, a))"

definition match_img :: "string \<Rightarrow> (string \<times> string \<times> string) option" where
  "match_img s =
     (if ci_prefix ''<img'' s then
        (let r = drop 4 s in match_before r (length (takeWhile (\<lambda>c. c \<noteq> CHR ''>'') r)))
      else None)"

text \<open>
  The matches of the global replace, in document order, with the text between them. A
  match \<open>(before, src, after)\<close> is \<open>length before + length src + length after + 11\<close>
  characters long, and the scan goes on behind it.
\<close>

datatype tok = Lit char | Img string string string

function scan_imgs :: "string \<Rightarrow> tok list" where
  "scan_imgs [] = []"
| "scan_imgs (c # cs) =
     (case match_img (c # cs) of
        Some (b, src, a) \<Rightarrow> Img b src a # scan_imgs (drop (length b + length src + length a + 11) (c # cs))
      | None \<Rightarrow> Lit c # scan_imgs cs)"
  by pat_completeness auto
termination
  by (relation "measure length") auto

subsection \<open>Step 2: the callback of the \<open>img\<close> replace\<close>

text \<open>
  An entry of the Image Dimension Table. The callback only interpolates \<open>width\<close> and
  \<open>height\<close> into a template literal, so the model holds each as the text that
  interpolation prints for it (\<open>ToString\<close> of the parsed JSON value: for an integer
  below \<open>10^21\<close> its decimal digits).
\<close>

record dim =
  width :: string
  height :: string

text \<open>The Image Dimension Table: the entries of the parsed JSON object, in the order in
  which \<open>Object.keys\<close> enumerates them.\<close>

type_synonym dims = "(string \<times> dim) list"

text \<open>\<open>src.startsWith("/") ? src.slice(1) : src\<close>.\<close>

definition strip_slash :: "string \<Rightarrow> string" where
  "strip_slash src = (if startsWith src ''/'' then drop 1 src else src)"

text \<open>\<open>Object.keys(dimensions).find((k) => k.endsWith(relativePath))\<close>, with its value.\<close>

definition find_dim :: "dims \<Rightarrow> string \<Rightarrow> (string \<times> dim) option" where
  "find_dim dimensions relativePath = find (\<lambda>(k, v). endsWith k relativePath) dimensions"

text \<open>The attributes appended by the width/height step. The key found must be truthy,
  that is, not the empty string.\<close>

definition dim_attrs :: "dims \<Rightarrow> string \<Rightarrow> string \<Rightarrow> string \<Rightarrow> string" where
  \<open>dim_attrs dimensions before src after =
     (let hasWidth = ci_contains ''width='' (before @ after);
          hasHeight = ci_contains ''height='' (before @ after)
      in if \<not> hasWidth \<or> \<not> hasHeight then
           (case find_dim dimensions (strip_slash src) of
              None \<Rightarrow> []
            | Some (dimKey, d) \<Rightarrow>
                if dimKey \<noteq> [] then
                  (if \<not> hasWidth then '' width="'' @ width d @ ''"'' else []) @
                  (if \<not> hasHeight then '' height="'' @ height d @ ''"'' else [])
                else [])
         else [])\<close>

text \<open>The attribute added by the lazy-loading step; the second argument is \<open>imageIndex\<close>
  after its increment.\<close>

definition lazy_attr :: "nat \<Rightarrow> string \<Rightarrow> string \<Rightarrow> string" where
  \<open>lazy_attr imageIndex before after =
     (let isFirst = (imageIndex = 1);
          hasLazy = ci_contains ''loading='' (before @ after)
      in if \<not> isFirst \<and> \<not> hasLazy then '' loading="lazy"'' else [])\<close>

text \<open>\<open>newAfter\<close> when the two steps are done; \<open>newBefore\<close> stays \<open>before\<close>.\<close>

definition new_after :: "dims \<Rightarrow> nat \<Rightarrow> string \<Rightarrow> string \<Rightarrow> string \<Rightarrow> string" where
  "new_after dimensions imageIndex before src after =
     after @ dim_attrs dimensions before src after @ lazy_attr imageIndex before after"

text \<open>\<open>s.replace(/\.(png|jpe?g)$/i, "")\<close>: the pattern is anchored at the end, so it
  removes the suffix when it is one of the three extensions, in any case of letters.\<close>

definition ci_suffix :: "string \<Rightarrow> string \<Rightarrow> bool" where
  "ci_suffix e s = (length e \<le> length s \<and> toLowerCase (drop (length s - length e) s) = e)"

definition strip_img_ext :: "string \<Rightarrow> string" where
  "strip_img_ext s =
     (if ci_suffix ''.png'' s \<or> ci_suffix ''.jpg'' s then take (length s - 4) s
      else if ci_suffix ''.jpeg'' s then take (length s - 5) s
      else s)"

text \<open>\<open>basePath ? basePath.replace(/\/$/, "") : ""\<close>.\<close>

definition normalize_prefix :: "string \<Rightarrow> string" where
  "normalize_prefix basePath =
     (if basePath = [] then []
      else if last basePath = CHR ''/'' then butlast basePath else basePath)"

definition nl :: string where
  "nl = [CHR 0x0A]"

text \<open>The picture conversion and the path prefix, from \<open>newBefore\<close>, \<open>src\<close> and
  \<open>newAfter\<close>.\<close>

definition picture_or_img :: "string \<Rightarrow> string set \<Rightarrow> string \<Rightarrow> string \<Rightarrow> string \<Rightarrow> string" where
  \<open>picture_or_img prefix spImages newBefore src newAfter =
     (let ext = toLowerCase (extname src) in
      if ext \<in> set [''.png'', ''.jpg'', ''.jpeg''] then
        (let baseName = strip_img_ext src;
             imgPrefix = (if startsWith src ''/'' \<or> startsWith src ''http'' then []
                          else if prefix \<noteq> [] then prefix @ ''/'' else []);
             srcWithPrefix = (if startsWith src ''/'' \<or> startsWith src ''http'' then src
                              else imgPrefix @ src);
             baseNameWithPrefix = (if startsWith src ''/'' \<or> startsWith src ''http'' then baseName
                                   else imgPrefix @ baseName);
             relativeSrc = (if startsWith src ''/'' then drop 1 src else src);
             hasSpImage = (relativeSrc \<in> spImages)
         in if hasSpImage then
              (let spBaseName = strip_img_ext baseName @ ''-sp'';
                   spBaseNameWithPrefix = (if startsWith src ''/'' \<or> startsWith src ''http'' then spBaseName
                                           else imgPrefix @ spBaseName);
                   spSrcWithPrefix = (if startsWith src ''/'' \<or> startsWith src ''http'' then spBaseName @ ext
                                      else imgPrefix @ spBaseName @ ext)
               in ''<picture>'' @ nl @
                  ''  <source media="(max-width: 767px)" srcset="'' @ spBaseNameWithPrefix @ ''.avif" type="image/avif">'' @ nl @
                  ''  <source media="(max-width: 767px)" srcset="'' @ spBaseNameWithPrefix @ ''.webp" type="image/webp">'' @ nl @
                  ''  <source media="(max-width: 767px)" srcset="'' @ spSrcWithPrefix @ ''">'' @ nl @
                  ''  <source srcset="'' @ baseNameWithPrefix @ ''.avif" type="image/avif">'' @ nl @
                  ''  <source srcset="'' @ baseNameWithPrefix @ ''.webp" type="image/webp">'' @ nl @
                  ''  <img'' @ newBefore @ ''src="'' @ srcWithPrefix @ ''"'' @ newAfter @ ''>'' @ nl @
                  ''</picture>'')
            else
              ''<picture>'' @ nl @
              ''  <source srcset="'' @ baseNameWithPrefix @ ''.avif" type="image/avif">'' @ nl @
              ''  <source srcset="'' @ baseNameWithPrefix @ ''.webp" type="image/webp">'' @ nl @
              ''  <img'' @ newBefore @ ''src="'' @ srcWithPrefix @ ''"'' @ newAfter @ ''>'' @ nl @
              ''</picture>'')
      else if \<not> startsWith src ''/'' \<and> \<not> startsWith src ''http'' \<and> prefix \<noteq> [] then
        ''<img'' @ newBefore @ ''src="'' @ prefix @ ''/'' @ src @ ''"'' @ newAfter @ ''>''
      else
        ''<img'' @ newBefore @ ''src="'' @ src @ ''"'' @ newAfter @ ''>'')\<close>

text \<open>The callback: \<open>(match, before, src, after)\<close> at the given \<open>imageIndex\<close>.\<close>

definition rewrite_img :: "dims \<Rightarrow> string \<Rightarrow> string set \<Rightarrow> nat \<Rightarrow> string \<Rightarrow> string \<Rightarrow> string \<Rightarrow> string" where
  "rewrite_img dimensions prefix spImages imageIndex before src after =
     picture_or_img prefix spImages before src (new_after dimensions imageIndex before src after)"

text \<open>The global replace: every match is replaced by the callback's result, with
  \<open>imageIndex\<close> incremented at each call; the other characters are copied.\<close>

fun render_toks :: "dims \<Rightarrow> string \<Rightarrow> string set \<Rightarrow> nat \<Rightarrow> tok list \<Rightarrow> string" where
  "render_toks D p S i [] = []"
| "render_toks D p S i (Lit c # ts) = c # render_toks D p S i ts"
| "render_toks D p S i (Img b s a # ts) =
     rewrite_img D p S (Suc i) b s a @ render_toks D p S (Suc i) ts"

definition replace_imgs :: "dims \<Rightarrow> string \<Rightarrow> string set \<Rightarrow> string \<Rightarrow> string" where
  "replace_imgs D p S h = render_toks D p S 0 (scan_imgs h)"

subsection \<open>Step 3: restoring the placeholders\<close>

text \<open>\<open>pictureBlocks.forEach((block, i) => { html = html.replace(placeholder_i, block) })\<close>:
  a string pattern and a string replacement.\<close>

fun restore_blocks :: "nat \<Rightarrow> string list \<Rightarrow> string \<Rightarrow> string" where
  "restore_blocks i [] h = h"
| "restore_blocks i (block # bs) h = restore_blocks (Suc i) bs (js_replace (placeholder i) block h)"

record image_result =
  html :: string
  warnings :: "string list"

definition processImages :: "string \<Rightarrow> dims \<Rightarrow> string \<Rightarrow> string set \<Rightarrow> image_result" where
  "processImages html0 dimensions basePath spImages =
     (let prefix = normalize_prefix basePath;
          (pictureBlocks, h1) = protect_pictures [] html0;
          h2 = replace_imgs dimensions prefix spImages h1;
          h3 = restore_blocks 0 pictureBlocks h2
      in \<lparr>html = h3, warnings = []\<rparr>)"

section \<open>The tag generators\<close>

subsection \<open>The configuration map\<close>

text \<open>
  The configuration is a flat map from keys to strings. The script only ever tests a
  value for truthiness before it uses it: \<open>get\<close> is the value of a key, with the empty
  string standing for every falsy value (a missing key or an empty string), and
  \<open>a || b\<close> on such values is \<open>or_else\<close>.
\<close>

type_synonym env = "string \<rightharpoonup> string"

definition get :: "env \<Rightarrow> string \<Rightarrow> string" where
  "get env k = (case env k of None \<Rightarrow> [] | Some v \<Rightarrow> v)"

definition has :: "env \<Rightarrow> string \<Rightarrow> bool" where
  "has env k = (get env k \<noteq> [])"

definition or_else :: "string \<Rightarrow> string \<Rightarrow> string" where
  "or_else a b = (if a \<noteq> [] then a else b)"

definition sq :: string where
  "sq = [squote]"

subsection \<open>\<open>escapeHtml\<close>\<close>

text \<open>\<open>s.replace(/c/g, r)\<close> for a single character \<open>c\<close> and a replacement without
  dollar signs.\<close>

definition replace_char :: "char \<Rightarrow> string \<Rightarrow> string \<Rightarrow> string" where
  "replace_char c r s = concat (map (\<lambda>x. if x = c then r else [x]) s)"

definition escapeHtml :: "string \<Rightarrow> string" where
  "escapeHtml str =
     (if str = [] then []
      else replace_char squote ''&#039;''
            (replace_char (CHR 0x22) ''&quot;''
              (replace_char (CHR ''>'') ''&gt;''
                (replace_char (CHR ''<'') ''&lt;''
                  (replace_char (CHR ''&'') ''&amp;'' str)))))"

subsection \<open>\<open>generateMetaTags\<close>\<close>

definition generateMetaTags :: "env \<Rightarrow> string" where
  \<open>generateMetaTags env =
     (let tags =
        (if has env ''SITE_DESCRIPTION'' then
           [''<meta name="description" content="'' @ escapeHtml (get env ''SITE_DESCRIPTION'') @ ''">'']
         else []) @
        [''<meta property="og:type" content="'' @ escapeHtml (or_else (get env ''OG_TYPE'') ''website'') @ ''">''] @
        (if has env ''SITE_TITLE'' then
           [''<meta property="og:title" content="'' @ escapeHtml (get env ''SITE_TITLE'') @ ''">'']
         else []) @
        (if has env ''SITE_DESCRIPTION'' then
           [''<meta property="og:description" content="'' @ escapeHtml (get env ''SITE_DESCRIPTION'') @ ''">'']
         else []) @
        (if has env ''OG_URL'' then
           [''<meta property="og:url" content="'' @ escapeHtml (get env ''OG_URL'') @ ''">'']
         else []) @
        (if has env ''OG_IMAGE_URL'' then
           [''<meta property="og:image" content="'' @ escapeHtml (get env ''OG_IMAGE_URL'') @ ''">'',
            ''<meta property="og:image:width" content="'' @ or_else (get env ''OG_IMAGE_WIDTH'') ''1200'' @ ''">'',
            ''<meta property="og:image:height" content="'' @ or_else (get env ''OG_IMAGE_HEIGHT'') ''630'' @ ''">'']
         else []) @
        (if has env ''OG_SITE_NAME'' then
           [''<meta property="og:site_name" content="'' @ escapeHtml (get env ''OG_SITE_NAME'') @ ''">'']
         else []) @
        [''<meta property="og:locale" content="'' @ or_else (get env ''OG_LOCALE'') ''ja_JP'' @ ''">''] @
        [''<meta name="twitter:card" content="'' @ or_else (get env ''TWITTER_CARD'') ''summary_large_image'' @ ''">''] @
        (if has env ''TWITTER_SITE'' then
           [''<meta name="twitter:site" content="'' @ escapeHtml (get env ''TWITTER_SITE'') @ ''">'']
         else []) @
        (if has env ''SITE_TITLE'' then
           [''<meta name="twitter:title" content="'' @ escapeHtml (get env ''SITE_TITLE'') @ ''">'']
         else []) @
        (if has env ''SITE_DESCRIPTION'' then
           [''<meta name="twitter:description" content="'' @ escapeHtml (get env ''SITE_DESCRIPTION'') @ ''">'']
         else []) @
        (if has env ''OG_IMAGE_URL'' then
           [''<meta name="twitter:image" content="'' @ escapeHtml (get env ''OG_IMAGE_URL'') @ ''">'']
         else [])
      in if tags \<noteq> [] then ''<!-- OGP -->'' @ nl @ join nl tags else [])\<close>

subsection \<open>\<open>generateAnalyticsTags\<close>\<close>

text \<open>The five snippets, as the template literals of the script spell them.\<close>

definition ga_snippet :: "env \<Rightarrow> string" where
  \<open>ga_snippet env =
       ''
<!-- Google Analytics -->
<script async src="https://www.googletagmanager.com/gtag/js?id='' @
       get env ''GA_MEASUREMENT_ID'' @
       ''"></script>
<script>
  window.dataLayer = window.dataLayer || [];
  function gtag(){dataLayer.push(arguments);}
  gtag('js', new Date());
  gtag('config', '' @
       sq @
       get env ''GA_MEASUREMENT_ID'' @
       sq @
       '');
  '' @
       (if has env ''GA_ADS_ID'' then ''gtag('config', '' @ sq @ get env ''GA_ADS_ID'' @ sq @ '');'' else []) @
       ''
</script>''\<close>

definition meta_pixel_snippet :: "env \<Rightarrow> string" where
  \<open>meta_pixel_snippet env =
       ''
<!-- Meta Pixel -->
<script>
  !function(f,b,e,v,n,t,s){if(f.fbq)return;n=f.fbq=function(){n.callMethod?
  n.callMethod.apply(n,arguments):n.queue.push(arguments)};if(!f._fbq)f._fbq=n;
  n.push=n;n.loaded=!0;n.version='2.0';n.queue=[];t=b.createElement(e);t.async=!0;
  t.src=v;s=b.getElementsByTagName(e)[0];s.parentNode.insertBefore(t,s)}(window,
  document,'script','https://connect.facebook.net/en_US/fbevents.js');
  fbq('init', '' @
       sq @
       get env ''META_PIXEL_ID'' @
       sq @
       '');
  fbq('track', 'PageView');
</script>
<noscript><img height="1" width="1" style="display:none" src="https://www.facebook.com/tr?id='' @
       get env ''META_PIXEL_ID'' @
       ''&ev=PageView&noscript=1"/></noscript>''\<close>

definition line_tag_snippet :: "env \<Rightarrow> string" where
  \<open>line_tag_snippet env =
       ''
<!-- LINE Tag -->
<script>
  (function(g,d,o){g._ltq=g._ltq||[];g._lt=g._lt||function(){g._ltq.push(arguments)};
  var h=d.getElementsByTagName(o)[0];var s=d.createElement(o);s.async=1;
  s.src='https://d.line-scdn.net/n/line_tag/public/release/v1/lt.js';
  h.parentNode.insertBefore(s,h)})(window,document,'script');
  _lt('init',{customerType:'account',tagId:'' @
       sq @
       get env ''LINE_TAG_ID'' @
       sq @
       ''});
  _lt('send','pv',['' @
       sq @
       get env ''LINE_TAG_ID'' @
       sq @
       '']);
</script>
<noscript><img height="1" width="1" style="display:none" src="https://tr.line.me/tag.gif?c_t=lap&t_id='' @
       get env ''LINE_TAG_ID'' @
       ''&e=pv&noscript=1"/></noscript>''\<close>

definition yahoo_snippet :: "env \<Rightarrow> string" where
  \<open>yahoo_snippet env =
       ''
<!-- Yahoo Tag -->
<script async src="https://s.yimg.jp/images/listing/tool/cv/ytag.js"></script>
<script>
  window.yjDataLayer = window.yjDataLayer || [];
  function ytag(){yjDataLayer.push(arguments);}
  ytag('config', { yahoo_ss_retargeting_id: '' @
       sq @
       get env ''YAHOO_RETARGETING_ID'' @
       sq @
       '' });
</script>''\<close>

definition clarity_snippet :: "env \<Rightarrow> string" where
  \<open>clarity_snippet env =
       ''
<!-- Microsoft Clarity -->
<script>
  (function(c,l,a,r,i,t,y){c[a]=c[a]||function(){(c[a].q=c[a].q||[]).push(arguments)};
  t=l.createElement(r);t.async=1;t.src="https://www.clarity.ms/tag/"+i;
  y=l.getElementsByTagName(r)[0];y.parentNode.insertBefore(t,y);
  })(window,document,"clarity","script","'' @
       get env ''CLARITY_PROJECT_ID'' @
       ''");
</script>''\<close>

definition generateAnalyticsTags :: "env \<Rightarrow> string" where
  "generateAnalyticsTags env =
     (let tags =
        (if has env ''GA_MEASUREMENT_ID'' then [ga_snippet env] else []) @
        (if has env ''META_PIXEL_ID'' then [meta_pixel_snippet env] else []) @
        (if has env ''LINE_TAG_ID'' then [line_tag_snippet env] else []) @
        (if has env ''YAHOO_RETARGETING_ID'' then [yahoo_snippet env] else []) @
        (if has env ''CLARITY_PROJECT_ID'' then [clarity_snippet env] else [])
      in join nl tags)"

subsection \<open>\<open>generateConversionCode\<close>\<close>

text \<open>
  The pieces pushed on \<open>code\<close>. The time-on-page piece prints
  \<open>JSON.stringify(times)\<close>, the list of the numbers \<open>parseInt\<close> reads from the
  configured thresholds; numbers are floating point there, and their rendering is a
  parameter of the model.
\<close>

definition cv_open :: string where
  \<open>cv_open =
       ''
(function() {
  document.querySelectorAll('[data-cv]').forEach(function(el) {
    el.addEventListener('click', function() {
      var cvType = this.dataset.cv;
      var label = this.textContent || this.innerText;
''\<close>

definition cv_ga :: string where
  \<open>cv_ga =
       ''
      if (typeof gtag === 'function') {
        gtag('event', cvType, { event_category: 'conversion', event_label: label });
      }''\<close>

definition cv_ads :: "env \<Rightarrow> string" where
  \<open>cv_ads env =
       ''
      if (typeof gtag === 'function') {
        gtag('event', 'conversion', { send_to: '' @
       sq @
       get env ''GA_ADS_ID'' @
       ''/'' @
       get env ''GA_ADS_CONVERSION_LABEL'' @
       sq @
       '' });
      }''\<close>

definition cv_meta :: string where
  \<open>cv_meta =
       ''
      if (typeof fbq === 'function') {
        fbq('track', cvType === 'tel' ? 'Contact' : 'Lead');
      }''\<close>

definition cv_line :: string where
  \<open>cv_line =
       ''
      if (typeof _lt === 'function') {
        _lt('send', 'cv', { type: cvType });
      }''\<close>

definition cv_yahoo :: "env \<Rightarrow> string" where
  \<open>cv_yahoo env =
       ''
      if (typeof ytag === 'function') {
        ytag('conversion', { yahoo_conversion_id: '' @
       sq @
       get env ''YAHOO_CONVERSION_ID'' @
       sq @
       '', yahoo_conversion_label: '' @
       sq @
       get env ''YAHOO_CONVERSION_LABEL'' @
       sq @
       '' });
      }''\<close>

definition cv_close :: string where
  \<open>cv_close =
       ''
    });
  });
''\<close>

definition cv_scroll :: string where
  \<open>cv_scroll =
       ''
  var scrollTracked = {};
  window.addEventListener('scroll', function() {
    var scrollPercent = Math.floor((window.scrollY + window.innerHeight) / document.body.scrollHeight * 100);
    [25, 50, 75, 90].forEach(function(point) {
      if (scrollPercent >= point && !scrollTracked[point]) {
        scrollTracked[point] = true;
        if (typeof gtag === 'function') { gtag('event', 'scroll_depth', { depth: point }); }
      }
    });
  });
''\<close>

definition cv_time :: "string \<Rightarrow> string" where
  \<open>cv_time times_json =
       ''
  var timeTracked = {};
  var timePoints = '' @
       times_json @
       '';
  var startTime = Date.now();
  setInterval(function() {
    var elapsed = Math.floor((Date.now() - startTime) / 1000);
    timePoints.forEach(function(seconds) {
      if (elapsed >= seconds && !timeTracked[seconds]) {
        timeTracked[seconds] = true;
        if (typeof gtag === 'function') { gtag('event', 'time_on_page', { seconds: seconds }); }
      }
    });
  }, 1000);
''\<close>

definition cv_end :: string where
  \<open>cv_end =
       ''})();''\<close>

definition generateConversionCode :: "(string \<Rightarrow> string) \<Rightarrow> env \<Rightarrow> string" where
  "generateConversionCode render_times env =
     (let code =
        [cv_open] @
        (if has env ''GA_MEASUREMENT_ID'' then [cv_ga] else []) @
        (if has env ''GA_ADS_ID'' \<and> has env ''GA_ADS_CONVERSION_LABEL'' then [cv_ads env] else []) @
        (if has env ''META_PIXEL_ID'' then [cv_meta] else []) @
        (if has env ''LINE_TAG_ID'' then [cv_line] else []) @
        (if has env ''YAHOO_CONVERSION_ID'' \<and> has env ''YAHOO_CONVERSION_LABEL'' then [cv_yahoo env] else []) @
        [cv_close] @
        (if env ''TRACK_SCROLL_DEPTH'' = Some ''true'' \<and> has env ''GA_MEASUREMENT_ID'' then [cv_scroll] else []) @
        (if has env ''TRACK_TIME_ON_PAGE'' \<and> has env ''GA_MEASUREMENT_ID'' then
           [cv_time (render_times (get env ''TRACK_TIME_ON_PAGE''))]
         else []) @
        [cv_end]
      in concat code)"

subsection \<open>\<open>generateFavicons\<close>\<close>

text \<open>
  The link tags the favicon generator returns. Reading and resizing the source icon is
  outside the model: the first argument says whether \<open>images/favicon.png\<close> was found
  and resized; when it was not, the build goes on with the empty fragment.
\<close>

definition generateFavicons :: "bool \<Rightarrow> string \<Rightarrow> string" where
  \<open>generateFavicons icon_ok basePath =
     (if \<not> icon_ok then []
      else
        (let prefix = normalize_prefix basePath;
             faviconTags =
               [''<link rel="icon" type="image/x-icon" href="'' @ prefix @ ''/favicon.ico">'',
                ''<link rel="icon" type="image/png" sizes="16x16" href="'' @ prefix @ ''/favicon-16x16.png">'',
                ''<link rel="icon" type="image/png" sizes="32x32" href="'' @ prefix @ ''/favicon-32x32.png">'',
                ''<link rel="apple-touch-icon" sizes="180x180" href="'' @ prefix @ ''/apple-touch-icon.png">'']
         in ''<!-- Favicon -->'' @ nl @ join nl faviconTags))\<close>

subsection \<open>\<open>JSON.stringify\<close> and \<open>escapeJsonLd\<close>\<close>

text \<open>The values the structured-data generator builds: strings, objects with their keys
  in insertion order, and arrays.\<close>

datatype json = JStr string | JObj "(string \<times> json) list" | JArr "json list"

definition hex_digit :: "nat \<Rightarrow> char" where
  "hex_digit n = (if n < 10 then char_of (48 + n) else char_of (87 + n))"

text \<open>\<open>QuoteJSONString\<close> on the bytes: the quote, the backslash and the control
  characters are escaped, everything else is copied.\<close>

definition json_escape_char :: "char \<Rightarrow> string" where
  "json_escape_char c =
     (let n = (of_char c :: nat) in
      if c = CHR 0x22 then [bslash, CHR 0x22]
      else if c = bslash then [bslash, bslash]
      else if n = 8 then [bslash, CHR ''b'']
      else if n = 12 then [bslash, CHR ''f'']
      else if n = 10 then [bslash, CHR ''n'']
      else if n = 13 then [bslash, CHR ''r'']
      else if n = 9 then [bslash, CHR ''t'']
      else if n < 32 then [bslash, CHR ''u'', CHR ''0'', CHR ''0'', hex_digit (n div 16), hex_digit (n mod 16)]
      else [c])"

definition json_quote :: "string \<Rightarrow> string" where
  "json_quote s = CHR 0x22 # concat (map json_escape_char s) @ [CHR 0x22]"

fun json_stringify :: "json \<Rightarrow> string"
  and json_members :: "(string \<times> json) list \<Rightarrow> string list"
  and json_elements :: "json list \<Rightarrow> string list" where
  "json_stringify (JStr s) = json_quote s"
| "json_stringify (JObj kvs) = ''{'' @ join '','' (json_members kvs) @ ''}''"
| "json_stringify (JArr xs) = ''['' @ join '','' (json_elements xs) @ '']''"
| "json_members [] = []"
| "json_members ((k, v) # r) = (json_quote k @ '':'' @ json_stringify v) # json_members r"
| "json_elements [] = []"
| "json_elements (x # r) = json_stringify x # json_elements r"

text \<open>\<open>json.replace(/<\//g, "<\\/")\<close>: every \<open></\<close>, from the left, becomes
  \<open><\/\<close>; the scan goes on behind the two characters.\<close>

fun escape_close_tags :: "string \<Rightarrow> string" where
  "escape_close_tags [] = []"
| "escape_close_tags [c] = [c]"
| "escape_close_tags (c # d # r) =
     (if c = CHR ''<'' \<and> d = CHR ''/'' then CHR ''<'' # bslash # CHR ''/'' # escape_close_tags r
      else c # escape_close_tags (d # r))"

definition escapeJsonLd :: "json \<Rightarrow> string" where
  "escapeJsonLd obj = (let json = json_stringify obj in escape_close_tags json)"

subsection \<open>\<open>split\<close> and \<open>trim\<close>\<close>

text \<open>\<open>s.split(",")\<close>.\<close>

fun split_on :: "char \<Rightarrow> string \<Rightarrow> string list" where
  "split_on d [] = [[]]"
| "split_on d (c # cs) =
     (if c = d then [] # split_on d cs
      else (case split_on d cs of [] \<Rightarrow> [[c]] | x # xs \<Rightarrow> (c # x) # xs))"

text \<open>The white space and line terminators \<open>trim\<close> removes, in UTF-8: U+0009 to U+000D,
  U+0020, U+00A0, U+1680, U+2000 to U+200A, U+2028, U+2029, U+202F, U+205F, U+3000 and
  U+FEFF.\<close>

definition ws_encodings :: "string list" where
  "ws_encodings =
     [[CHR 0x09], [CHR 0x0A], [CHR 0x0B], [CHR 0x0C], [CHR 0x0D], [CHR 0x20],
      [CHR 0xC2, CHR 0xA0],
      [CHR 0xE1, CHR 0x9A, CHR 0x80],
      [CHR 0xE2, CHR 0x80, CHR 0x80], [CHR 0xE2, CHR 0x80, CHR 0x81], [CHR 0xE2, CHR 0x80, CHR 0x82],
      [CHR 0xE2, CHR 0x80, CHR 0x83], [CHR 0xE2, CHR 0x80, CHR 0x84], [CHR 0xE2, CHR 0x80, CHR 0x85],
      [CHR 0xE2, CHR 0x80, CHR 0x86], [CHR 0xE2, CHR 0x80, CHR 0x87], [CHR 0xE2, CHR 0x80, CHR 0x88],
      [CHR 0xE2, CHR 0x80, CHR 0x89], [CHR 0xE2, CHR 0x80, CHR 0x8A],
      [CHR 0xE2, CHR 0x80, CHR 0xA8], [CHR 0xE2, CHR 0x80, CHR 0xA9], [CHR 0xE2, CHR 0x80, CHR 0xAF],
      [CHR 0xE2, CHR 0x81, CHR 0x9F],
      [CHR 0xE3, CHR 0x80, CHR 0x80],
      [CHR 0xEF, CHR 0xBB, CHR 0xBF]]"

text \<open>The length in bytes of the white-space character at the head of the text, if there
  is one. \<open>trim_with\<close> removes such characters from the head: one of \<open>n\<close> bytes
  is the first byte and \<open>n - 1\<close> bytes behind it.\<close>

definition ws_at :: "string list \<Rightarrow> string \<Rightarrow> nat option" where
  "ws_at encs s = map_option length (find (\<lambda>w. startsWith s w) encs)"

function trim_with :: "string list \<Rightarrow> string \<Rightarrow> string" where
  "trim_with encs [] = []"
| "trim_with encs (c # cs) =
     (case ws_at encs (c # cs) of
        None \<Rightarrow> c # cs
      | Some n \<Rightarrow> trim_with encs (drop (n - 1) cs))"
  by pat_completeness auto
termination
  by (relation "measure (\<lambda>(encs, s). length s)") auto

definition trimStart :: "string \<Rightarrow> string" where
  "trimStart s = trim_with ws_encodings s"

definition trimEnd :: "string \<Rightarrow> string" where
  "trimEnd s = rev (trim_with (map rev ws_encodings) (rev s))"

definition trim :: "string \<Rightarrow> string" where
  "trim s = trimEnd (trimStart s)"

subsection \<open>\<open>generateSingleStructuredData\<close>\<close>

text \<open>\<open>...(v && { key: v })\<close>: the member is there when the value is truthy.\<close>

definition opt_member :: "string \<Rightarrow> string \<Rightarrow> (string \<times> json) list" where
  "opt_member key v = (if v \<noteq> [] then [(key, JStr v)] else [])"

text \<open>
  The FAQ pattern
  \<open>/<summary[^>]*>([\s\S]*?)<\/summary>[\s\S]*?<p[^>]*>([\s\S]*?)<\/p>/gi\<close> at the head
  of the text. Each lazy group ends at the first occurrence of the literal behind it, and
  each \<open>[^>]*\<close> is the whole run up to the next \<open>>\<close>: when the rest of the pattern
  fails behind the first choice, it fails behind every later one, since a later choice
  leaves less text. The result is the question, the answer and the text behind the match.
\<close>

definition match_faq :: "string \<Rightarrow> (string \<times> string \<times> string) option" where
  "match_faq s =
     (if ci_prefix ''<summary'' s then
        (case dropWhile (\<lambda>c. c \<noteq> CHR ''>'') (drop 8 s) of
           [] \<Rightarrow> None
         | g # r1 \<Rightarrow>
             (case ci_find ''</summary>'' r1 of
                None \<Rightarrow> None
              | Some (question, r2) \<Rightarrow>
                  (case ci_find ''<p'' r2 of
                     None \<Rightarrow> None
                   | Some (skipped, r3) \<Rightarrow>
                       (case dropWhile (\<lambda>c. c \<noteq> CHR ''>'') r3 of
                          [] \<Rightarrow> None
                        | g2 # r4 \<Rightarrow>
                            (case ci_find ''</p>'' r4 of
                               None \<Rightarrow> None
                             | Some (answer, r5) \<Rightarrow> Some (question, answer, r5))))))
      else None)"

text \<open>The text behind a match is shorter than the text the match started in.\<close>

lemma ci_find_shorter: "ci_find p s = Some (b, r) \<Longrightarrow> length r \<le> length s"
  by (induction s arbitrary: b) (auto split: if_splits option.splits)

lemma dropWhile_shorter: "dropWhile P xs = g # r \<Longrightarrow> length r < length xs"
  using length_dropWhile_le [of P xs] by simp

lemma match_faq_shorter:
  assumes "match_faq s = Some (question, answer, rest)"
  shows "length rest < length s"
  using assms unfolding match_faq_def
  by (auto split: if_splits list.splits option.splits dest!: dropWhile_shorter ci_find_shorter; linarith)

text \<open>The \<open>exec\<close> loop: the matches from the left, each search starting behind the
  match before.\<close>

function faq_matches :: "string \<Rightarrow> (string \<times> string) list" where
  "faq_matches [] = []"
| "faq_matches (c # cs) =
     (case match_faq (c # cs) of
        Some (question, answer, rest) \<Rightarrow> (question, answer) # faq_matches rest
      | None \<Rightarrow> faq_matches cs)"
  by pat_completeness auto
termination
  by (relation "measure length") (auto dest: match_faq_shorter)

definition faq_items :: "string \<Rightarrow> json list" where
  "faq_items html0 =
     concat (map (\<lambda>(q, a).
        (let question = trim q; answer = trim a in
         if question \<noteq> [] \<and> answer \<noteq> [] then
           [JObj [(''@type'', JStr ''Question''),
                  (''name'', JStr question),
                  (''acceptedAnswer'', JObj [(''@type'', JStr ''Answer''), (''text'', JStr answer)])]]
         else [])) (faq_matches html0))"

definition event_data :: "env \<Rightarrow> json option" where
  "event_data env =
     (let name = or_else (get env ''EVENT_NAME'') (get env ''SITE_TITLE'') in
      if name = [] then None
      else Some (JObj (
        [(''@context'', JStr ''https://schema.org''),
         (''@type'', JStr ''Event''),
         (''name'', JStr name)] @
        opt_member ''description'' (or_else (get env ''EVENT_DESCRIPTION'') (get env ''SITE_DESCRIPTION'')) @
        opt_member ''image'' (or_else (get env ''EVENT_IMAGE_URL'') (get env ''OG_IMAGE_URL'')) @
        opt_member ''startDate'' (get env ''EVENT_START_DATE'') @
        opt_member ''endDate'' (get env ''EVENT_END_DATE'') @
        (if has env ''EVENT_LOCATION_NAME'' \<or> has env ''EVENT_LOCATION_ADDRESS'' then
           [(''location'', JObj (
               [(''@type'', JStr ''Place'')] @
               opt_member ''name'' (get env ''EVENT_LOCATION_NAME'') @
               opt_member ''address'' (get env ''EVENT_LOCATION_ADDRESS'')))]
         else []) @
        (if has env ''EVENT_OFFER_PRICE'' then
           [(''offers'', JObj (
               [(''@type'', JStr ''Offer''),
                (''price'', JStr (get env ''EVENT_OFFER_PRICE'')),
                (''priceCurrency'', JStr (or_else (get env ''EVENT_OFFER_CURRENCY'') ''JPY'')),
                (''availability'', JStr ''https://schema.org/InStock'')] @
               opt_member ''url'' (or_else (get env ''EVENT_OFFER_URL'') (get env ''OG_URL''))))]
         else []) @
        (if has env ''EVENT_PERFORMER'' then
           [(''performer'', JObj [(''@type'', JStr ''Person''), (''name'', JStr (get env ''EVENT_PERFORMER''))])]
         else []) @
        (if has env ''OG_SITE_NAME'' then
           [(''organizer'', JObj [(''@type'', JStr ''Organization''), (''name'', JStr (get env ''OG_SITE_NAME''))])]
         else []))))"

definition product_data :: "env \<Rightarrow> json option" where
  "product_data env =
     (let name = or_else (get env ''PRODUCT_NAME'') (get env ''SITE_TITLE'') in
      if name = [] then None
      else Some (JObj (
        [(''@context'', JStr ''https://schema.org''),
         (''@type'', JStr ''Product''),
         (''name'', JStr name)] @
        opt_member ''description'' (get env ''SITE_DESCRIPTION'') @
        opt_member ''image'' (get env ''OG_IMAGE_URL'') @
        opt_member ''brand'' (get env ''PRODUCT_BRAND'') @
        (if has env ''PRODUCT_PRICE'' then
           [(''offers'', JObj
               [(''@type'', JStr ''Offer''),
                (''price'', JStr (get env ''PRODUCT_PRICE'')),
                (''priceCurrency'', JStr (or_else (get env ''PRODUCT_CURRENCY'') ''JPY'')),
                (''availability'', JStr (or_else (get env ''PRODUCT_AVAILABILITY'') ''https://schema.org/InStock''))])]
         else []))))"

definition localbusiness_data :: "env \<Rightarrow> json option" where
  "localbusiness_data env =
     (let name = or_else (get env ''BUSINESS_NAME'') (get env ''OG_SITE_NAME'') in
      if name = [] then None
      else
        (let address = get env ''BUSINESS_ADDRESS'';
             city = get env ''BUSINESS_CITY''
         in Some (JObj (
           [(''@context'', JStr ''https://schema.org''),
            (''@type'', JStr (or_else (get env ''BUSINESS_TYPE'') ''LocalBusiness'')),
            (''name'', JStr name)] @
           opt_member ''description'' (get env ''SITE_DESCRIPTION'') @
           opt_member ''image'' (or_else (get env ''BUSINESS_IMAGE_URL'') (get env ''OG_IMAGE_URL'')) @
           opt_member ''telephone'' (get env ''BUSINESS_PHONE'') @
           opt_member ''url'' (or_else (get env ''BUSINESS_URL'') (get env ''OG_URL'')) @
           opt_member ''priceRange'' (get env ''BUSINESS_PRICE_RANGE'') @
           (if address \<noteq> [] \<and> city \<noteq> [] then
              [(''address'', JObj (
                  [(''@type'', JStr ''PostalAddress''),
                   (''streetAddress'', JStr address),
                   (''addressLocality'', JStr city)] @
                  opt_member ''addressRegion'' (get env ''BUSINESS_REGION'') @
                  opt_member ''postalCode'' (get env ''BUSINESS_POSTAL_CODE'') @
                  [(''addressCountry'', JStr (or_else (get env ''BUSINESS_COUNTRY'') ''JP''))]))]
            else [])))))"

definition organization_data :: "env \<Rightarrow> json option" where
  "organization_data env =
     (let name = or_else (get env ''ORG_NAME'') (get env ''OG_SITE_NAME'');
          url = or_else (get env ''ORG_URL'') (get env ''OG_URL'')
      in if name = [] \<or> url = [] then None
         else Some (JObj (
           [(''@context'', JStr ''https://schema.org''),
            (''@type'', JStr ''Organization''),
            (''name'', JStr name),
            (''url'', JStr url)] @
           opt_member ''logo'' (or_else (get env ''ORG_LOGO_URL'') (get env ''OG_IMAGE_URL'')) @
           opt_member ''description'' (or_else (get env ''ORG_DESCRIPTION'') (get env ''SITE_DESCRIPTION'')) @
           opt_member ''email'' (get env ''ORG_EMAIL'') @
           opt_member ''telephone'' (get env ''ORG_PHONE''))))"

definition faqpage_data :: "string \<Rightarrow> json option" where
  "faqpage_data html0 =
     (let faqItems = faq_items html0 in
      if faqItems \<noteq> [] then
        Some (JObj [(''@context'', JStr ''https://schema.org''),
                    (''@type'', JStr ''FAQPage''),
                    (''mainEntity'', JArr faqItems)])
      else None)"

definition generateSingleStructuredData :: "string \<Rightarrow> env \<Rightarrow> string \<Rightarrow> json option" where
  "generateSingleStructuredData type env html0 =
     (let t = trim (toLowerCase type) in
      if t = ''event'' then event_data env
      else if t = ''product'' then product_data env
      else if t = ''localbusiness'' then localbusiness_data env
      else if t = ''organization'' then organization_data env
      else if t = ''faqpage'' then faqpage_data html0
      else None)"

subsection \<open>\<open>generateStructuredData\<close>\<close>

text \<open>The types of the configured list that resolve, as JSON-LD objects, in configured
  order.\<close>

definition structured_types :: "env \<Rightarrow> string list" where
  "structured_types env = filter (\<lambda>t. t \<noteq> []) (map trim (split_on (CHR '','') (get env ''STRUCTURED_DATA_TYPE'')))"

definition structured_objects :: "env \<Rightarrow> string \<Rightarrow> json list" where
  "structured_objects env html0 =
     List.map_filter (\<lambda>type. generateSingleStructuredData type env html0) (structured_types env)"

definition ld_script :: "string \<Rightarrow> string" where
  \<open>ld_script payload = ''<script type="application/ld+json">'' @ payload @ ''</script>''\<close>

definition generateStructuredData :: "env \<Rightarrow> string \<Rightarrow> string" where
  "generateStructuredData env html0 =
     (if \<not> has env ''STRUCTURED_DATA_TYPE'' then []
      else if structured_types env = [] then []
      else join nl (map (\<lambda>data. ld_script (escapeJsonLd data)) (structured_objects env html0)))"

section \<open>The document assembler: the HTML part of \<open>build\<close>\<close>

text \<open>\<open>/<title>[^<]*<\/title>/i\<close> at the head of the text: the length of the match.\<close>

definition match_title :: "string \<Rightarrow> nat option" where
  "match_title s =
     (if ci_prefix ''<title>'' s then
        (let r = drop 7 s;
             run = takeWhile (\<lambda>c. c \<noteq> CHR ''<'') r
         in if ci_prefix ''</title>'' (drop (length run) r) then Some (7 + length run + 8) else None)
      else None)"

text \<open>The first match from the left: the text before it and its length.\<close>

fun find_title :: "string \<Rightarrow> (string \<times> nat) option" where
  "find_title [] = None"
| "find_title (c # cs) =
     (case match_title (c # cs) of
        Some n \<Rightarrow> Some ([], n)
      | None \<Rightarrow> (case find_title cs of None \<Rightarrow> None | Some (b, n) \<Rightarrow> Some (c # b, n)))"

text \<open>\<open>html.replace(/<title>[^<]*<\/title>/i, repl)\<close> with a string replacement.\<close>

definition replace_title :: "string \<Rightarrow> string \<Rightarrow> string" where
  "replace_title repl s =
     (case find_title s of
        None \<Rightarrow> s
      | Some (b, n) \<Rightarrow>
          (let m = take n (drop (length b) s);
               a = drop (length b + n) s
           in b @ get_substitution m b a repl @ a))"

text \<open>\<open>html.replace("</head>", `${fragment}\n</head>`)\<close>.\<close>

definition inject :: "string \<Rightarrow> string \<Rightarrow> string" where
  "inject fragment h = js_replace ''</head>'' (fragment @ nl @ ''</head>'') h"

text \<open>The document when the title, the meta tags, the analytics tags and the favicon
  tags are in: the text the structured-data generator reads.\<close>

definition head_before_structured :: "env \<Rightarrow> bool \<Rightarrow> string \<Rightarrow> string" where
  "head_before_structured env icon_ok html0 =
     (let basePath = normalize_prefix (get env ''BASE_PATH'');
          faviconTags = generateFavicons icon_ok basePath;
          h1 = (if has env ''SITE_TITLE'' then
                  replace_title (''<title>'' @ escapeHtml (get env ''SITE_TITLE'') @ ''</title>'') html0
                else html0);
          metaTags = generateMetaTags env;
          h2 = inject metaTags h1;
          analyticsTags = generateAnalyticsTags env;
          h3 = inject analyticsTags h2;
          h4 = (if faviconTags \<noteq> [] then inject faviconTags h3 else h3)
      in h4)"

text \<open>The document handed to the image rewriter.\<close>

definition assemble_head :: "env \<Rightarrow> bool \<Rightarrow> string \<Rightarrow> string" where
  "assemble_head env icon_ok html0 =
     (let h4 = head_before_structured env icon_ok html0;
          structuredData = generateStructuredData env h4
      in if structuredData \<noteq> [] then inject structuredData h4 else h4)"

text \<open>The document handed to the minifier.\<close>

definition build_html :: "env \<Rightarrow> dims \<Rightarrow> string set \<Rightarrow> bool \<Rightarrow> string \<Rightarrow> string" where
  \<open>build_html env dimensions spImages icon_ok html0 =
     (let basePath = normalize_prefix (get env ''BASE_PATH'');
          h5 = assemble_head env icon_ok html0;
          h6 = html (processImages h5 dimensions basePath spImages);
          cssHref = (if basePath \<noteq> [] then basePath @ ''/style.min.css'' else ''style.min.css'');
          jsHref = (if basePath \<noteq> [] then basePath @ ''/script.min.js'' else ''script.min.js'');
          h7 = js_replace ''href="style.css"'' (''href="'' @ cssHref @ ''"'') h6;
          h8 = js_replace ''src="script.js"'' (''src="'' @ jsHref @ ''"'') h7
      in h8)\<close>

section \<open>Notions the properties are stated with\<close>

text \<open>The number of matches of the \<open>img\<close> pattern in a stretch of the scan.\<close>

fun count_imgs :: "tok list \<Rightarrow> nat" where
  "count_imgs [] = 0"
| "count_imgs (Lit c # ts) = count_imgs ts"
| "count_imgs (Img b s a # ts) = Suc (count_imgs ts)"

text \<open>A \<open>source\<close> element with its optional media query and type, an \<open>img\<close> element
  with the attribute text on both sides of its \<open>src\<close>, and a \<open>picture\<close> block of
  sources and an image, laid out as the rewriter lays it out.\<close>

definition source_tag :: "string option \<Rightarrow> string \<Rightarrow> string option \<Rightarrow> string" where
  \<open>source_tag media srcset mime =
     ''<source'' @ (case media of None \<Rightarrow> [] | Some m \<Rightarrow> '' media="'' @ m @ ''"'') @
     '' srcset="'' @ srcset @ ''"'' @
     (case mime of None \<Rightarrow> [] | Some t \<Rightarrow> '' type="'' @ t @ ''"'') @ ''>''\<close>

definition img_tag :: "string \<Rightarrow> string \<Rightarrow> string \<Rightarrow> string" where
  \<open>img_tag attrs_before src attrs_after =
     ''<img'' @ attrs_before @ ''src="'' @ src @ ''"'' @ attrs_after @ ''>''\<close>

definition picture_block :: "string list \<Rightarrow> string \<Rightarrow> string" where
  "picture_block sources img =
     ''<picture>'' @ nl @ concat (map (\<lambda>s. ''  '' @ s @ nl) sources) @ ''  '' @ img @ nl @ ''</picture>''"

text \<open>The served path of the specification: a path \<open>x\<close> derived from \<open>src\<close> is used as
  it is when \<open>src\<close> is absolute or a full URL, and gets the prefix and a slash otherwise,
  if there is a prefix.\<close>

definition served_path :: "string \<Rightarrow> string \<Rightarrow> string \<Rightarrow> string" where
  "served_path prefix src x =
     (if startsWith src ''/'' \<or> startsWith src ''http'' then x
      else if prefix \<noteq> [] then prefix @ ''/'' @ x
      else x)"

definition sp_media :: string where
  "sp_media = ''(max-width: 767px)''"

text \<open>The sources of the specification: for a path of the SP-Image Set three sources
  for the small viewport (AVIF, WebP, the \<open>-sp\<close> file in the original format), then in
  every case AVIF and WebP of the PC file.\<close>

definition expected_sources :: "string \<Rightarrow> string set \<Rightarrow> string \<Rightarrow> string list" where
  "expected_sources prefix spImages src =
     (let pc = served_path prefix src (strip_img_ext src);
          sp = served_path prefix src (strip_img_ext (strip_img_ext src) @ ''-sp'')
      in (if strip_slash src \<in> spImages then
            [source_tag (Some sp_media) (sp @ ''.avif'') (Some ''image/avif''),
             source_tag (Some sp_media) (sp @ ''.webp'') (Some ''image/webp''),
             source_tag (Some sp_media) (sp @ toLowerCase (extname src)) None]
          else []) @
         [source_tag None (pc @ ''.avif'') (Some ''image/avif''),
          source_tag None (pc @ ''.webp'') (Some ''image/webp'')])"

text \<open>The text holds \<open>src=\<close>, in any case of letters, directly before a quote.\<close>

definition quoted_src_in :: "string \<Rightarrow> bool" where
  "quoted_src_in t = (ci_contains (''src='' @ [CHR 0x22]) t \<or> ci_contains (''src='' @ [squote]) t)"

text \<open>\<open>s.includes(p)\<close>.\<close>

fun str_includes :: "string \<Rightarrow> string \<Rightarrow> bool" where
  "str_includes [] p = startsWith [] p"
| "str_includes (c # cs) p = (startsWith (c # cs) p \<or> str_includes cs p)"

text \<open>The JSON-LD payloads of the structured-data fragment, one per script element.\<close>

definition structured_payloads :: "env \<Rightarrow> string \<Rightarrow> string list" where
  "structured_payloads env html0 =
     (if has env ''STRUCTURED_DATA_TYPE'' \<and> structured_types env \<noteq> []
      then map escapeJsonLd (structured_objects env html0) else [])"

text \<open>The fragment of the meta/OGP generator for the empty configuration.\<close>

definition default_meta :: string where
  \<open>default_meta =
     ''<!-- OGP -->'' @ nl @
     ''<meta property="og:type" content="website">'' @ nl @
     ''<meta property="og:locale" content="ja_JP">'' @ nl @
     ''<meta name="twitter:card" content="summary_large_image">''\<close>

section \<open>Verified properties\<close>

subsection \<open>Auxiliary facts about the scan\<close>

lemma render_toks_append:
  "render_toks D p S i (xs @ ys) = render_toks D p S i xs @ render_toks D p S (i + count_imgs xs) ys"
  by (induction xs arbitrary: i rule: count_imgs.induct) simp_all

lemma render_toks_Lit: "render_toks D p S i (map Lit t) = t"
  by (induction t) simp_all

lemma count_imgs_Lit: "count_imgs (map Lit t) = 0"
  by (induction t) simp_all

lemma lower_char_range:
  assumes "65 \<le> (of_char c :: nat)" and "(of_char c :: nat) \<le> 90"
  shows "of_char (lower_char c) = (of_char c :: nat) + 32"
  using assms by (simp add: lower_char_def Let_def)

lemma lower_char_other:
  assumes "\<not> (65 \<le> (of_char c :: nat) \<and> (of_char c :: nat) \<le> 90)"
  shows "lower_char c = c"
  using assms by (auto simp add: lower_char_def Let_def)

lemma lower_char_gt: "lower_char c = CHR ''>'' \<longleftrightarrow> c = CHR ''>''"
proof (cases "65 \<le> (of_char c :: nat) \<and> (of_char c :: nat) \<le> 90")
  case True
  then have "of_char (lower_char c) = (of_char c :: nat) + 32"
    by (simp add: lower_char_range)
  with True have "(of_char (lower_char c) :: nat) \<noteq> 62" and "(of_char c :: nat) \<noteq> 62"
    by auto
  then show ?thesis by auto
next
  case False
  then show ?thesis by (simp add: lower_char_other)
qed

lemma ci_prefix_snoc:
  assumes "ci_prefix p u" and "drop (length p) u = q # r"
  shows "ci_prefix (p @ [q]) u"
  using assms
  by (induction p u rule: ci_prefix.induct) auto

lemma match_src_tail_quoted:
  assumes "match_src_tail u = Some x"
  shows "ci_prefix (''src='' @ [CHR 0x22]) u \<or> ci_prefix (''src='' @ [squote]) u"
proof -
  have p: "ci_prefix ''src='' u"
    using assms unfolding match_src_tail_def
    by (cases "ci_prefix ''src='' u") simp_all
  obtain q r where d: "drop 4 u = q # r"
    using assms p unfolding match_src_tail_def
    by (cases "drop 4 u") simp_all
  have q: "is_quote q"
    using assms p d unfolding match_src_tail_def
    by (cases "is_quote q") simp_all
  have "length ''src='' = 4"
    by simp
  with d have "drop (length ''src='') u = q # r"
    by (simp only:)
  with p have "ci_prefix (''src='' @ [q]) u"
    by (rule ci_prefix_snoc)
  with q show ?thesis
    by (auto simp: is_quote_def)
qed

lemma ci_prefix_length: "ci_prefix p u \<Longrightarrow> length p \<le> length u"
  by (induction p u rule: ci_prefix.induct) auto

lemma ci_prefix_takeWhile:
  assumes "ci_prefix p u" and "\<forall>c\<in>set p. lower_char c \<noteq> CHR ''>''"
  shows "ci_prefix p (takeWhile (\<lambda>c. c \<noteq> CHR ''>'') u)"
  using assms
proof (induction p u rule: ci_prefix.induct)
  case (1 s)
  show ?case by simp
next
  case (2 p ps)
  then show ?case by simp
next
  case (3 p ps c cs)
  from "3.prems"(1) have e: "lower_char p = lower_char c" and r: "ci_prefix ps cs"
    by simp_all
  from "3.prems"(2) have g: "lower_char p \<noteq> CHR ''>''" and a: "\<forall>c\<in>set ps. lower_char c \<noteq> CHR ''>''"
    by simp_all
  from g e have "lower_char c \<noteq> CHR ''>''"
    by simp
  then have c: "c \<noteq> CHR ''>''"
    by (simp only: lower_char_gt not_False_eq_True)
  have "ci_prefix ps (takeWhile (\<lambda>c. c \<noteq> CHR ''>'') cs)"
    using r a by (rule "3.IH")
  with c e show ?case
    by simp
qed

lemma ci_prefix_contains_drop:
  assumes "ci_prefix p (drop j xs)"
  shows "ci_contains p xs"
  using assms
proof (induction xs arbitrary: j)
  case Nil
  then show ?case by simp
next
  case (Cons c cs)
  then show ?case by (cases j) auto
qed

lemma ci_contains_append: "ci_contains p xs \<Longrightarrow> ci_contains p (ys @ xs)"
  by (induction ys) auto

lemma takeWhile_drop_le:
  "j \<le> length (takeWhile P xs) \<Longrightarrow> takeWhile P (drop j xs) = drop j (takeWhile P xs)"
proof (induction xs arbitrary: j)
  case Nil
  then show ?case by simp
next
  case (Cons c cs)
  then show ?case by (cases j) (auto split: if_splits)
qed

lemma match_src_tail_in_tag:
  assumes "match_src_tail (drop j r) = Some y" and "j \<le> length (takeWhile (\<lambda>c. c \<noteq> CHR ''>'') r)"
  shows "quoted_src_in (takeWhile (\<lambda>c. c \<noteq> CHR ''>'') r)"
proof -
  let ?P = "\<lambda>c. c \<noteq> CHR ''>''"
  have q: "\<forall>c\<in>set (''src='' @ [CHR 0x22]). lower_char c \<noteq> CHR ''>''"
    "\<forall>c\<in>set (''src='' @ [squote]). lower_char c \<noteq> CHR ''>''"
    by (simp_all add: lower_char_gt squote_def)
  from match_src_tail_quoted [OF assms(1)]
  have "ci_prefix (''src='' @ [CHR 0x22]) (takeWhile ?P (drop j r)) \<or>
        ci_prefix (''src='' @ [squote]) (takeWhile ?P (drop j r))"
    using q by (blast intro: ci_prefix_takeWhile)
  then have "ci_prefix (''src='' @ [CHR 0x22]) (drop j (takeWhile ?P r)) \<or>
        ci_prefix (''src='' @ [squote]) (drop j (takeWhile ?P r))"
    using assms(2) by (simp add: takeWhile_drop_le)
  then show ?thesis
    unfolding quoted_src_in_def by (blast intro: ci_prefix_contains_drop)
qed

lemma match_before_quoted:
  assumes "match_before r j = Some x" and "j \<le> length (takeWhile (\<lambda>c. c \<noteq> CHR ''>'') r)"
  shows "quoted_src_in (takeWhile (\<lambda>c. c \<noteq> CHR ''>'') r)"
  using assms
proof (induction j)
  case 0
  then have "match_src_tail (drop 0 r) = Some (snd x)"
    by (auto split: option.splits)
  then show ?case by (rule match_src_tail_in_tag) simp
next
  case (Suc j)
  show ?case
  proof (cases "match_src_tail (drop (Suc j) r)")
    case None
    with Suc show ?thesis by simp
  next
    case (Some y)
    then show ?thesis using Suc.prems(2) by (rule match_src_tail_in_tag)
  qed
qed

lemma match_img_quoted:
  assumes "match_img s = Some x"
  shows "quoted_src_in (takeWhile (\<lambda>c. c \<noteq> CHR ''>'') s)"
proof -
  let ?P = "\<lambda>c. c \<noteq> CHR ''>''"
  from assms have p: "ci_prefix ''<img'' s"
    by (auto simp: match_img_def split: if_splits)
  from assms have "match_before (drop 4 s) (length (takeWhile ?P (drop 4 s))) = Some x"
    by (auto simp: match_img_def Let_def split: if_splits)
  then have q: "quoted_src_in (takeWhile ?P (drop 4 s))"
    by (rule match_before_quoted) simp
  have "\<forall>c\<in>set ''<img''. lower_char c \<noteq> CHR ''>''"
    by (simp add: lower_char_gt)
  with p have "ci_prefix ''<img'' (takeWhile ?P s)"
    by (rule ci_prefix_takeWhile)
  then have "4 \<le> length (takeWhile ?P s)"
    using ci_prefix_length [of "''<img''" "takeWhile ?P s"] by simp
  then have "takeWhile ?P (drop 4 s) = drop 4 (takeWhile ?P s)"
    by (rule takeWhile_drop_le)
  with q have "quoted_src_in (drop 4 (takeWhile ?P s))" by simp
  then have "ci_contains (''src='' @ [CHR 0x22]) (drop 4 (takeWhile ?P s)) \<or>
      ci_contains (''src='' @ [squote]) (drop 4 (takeWhile ?P s))"
    by (simp only: quoted_src_in_def)
  then have "ci_contains (''src='' @ [CHR 0x22]) (take 4 (takeWhile ?P s) @ drop 4 (takeWhile ?P s)) \<or>
      ci_contains (''src='' @ [squote]) (take 4 (takeWhile ?P s) @ drop 4 (takeWhile ?P s))"
    by (blast intro: ci_contains_append)
  then show ?thesis
    by (simp only: quoted_src_in_def append_take_drop_id)
qed

lemma takeWhile_tag:
  "CHR ''>'' \<notin> set t \<Longrightarrow> takeWhile (\<lambda>c. c \<noteq> CHR ''>'') (t @ CHR ''>'' # post) = t"
  by (induction t) auto

lemma scan_imgs_unmatched:
  assumes "CHR ''>'' \<notin> set t" and "\<not> quoted_src_in t"
  shows "scan_imgs (t @ CHR ''>'' # post) = map Lit (t @ ''>'') @ scan_imgs post"
  using assms
proof (induction t)
  case Nil
  have "match_img (CHR ''>'' # post) = None"
    by (simp add: match_img_def lower_char_def)
  then show ?case by simp
next
  case (Cons c cs)
  have "match_img ((c # cs) @ CHR ''>'' # post) = None"
  proof (rule ccontr)
    assume "match_img ((c # cs) @ CHR ''>'' # post) \<noteq> None"
    then obtain x where "match_img ((c # cs) @ CHR ''>'' # post) = Some x" by auto
    then have "quoted_src_in (takeWhile (\<lambda>c. c \<noteq> CHR ''>'') ((c # cs) @ CHR ''>'' # post))"
      by (rule match_img_quoted)
    moreover have "takeWhile (\<lambda>c. c \<noteq> CHR ''>'') ((c # cs) @ CHR ''>'' # post) = c # cs"
      using Cons.prems(1) takeWhile_tag [of "c # cs" post] by simp
    ultimately show False using Cons.prems(2) by simp
  qed
  moreover have "\<not> quoted_src_in cs"
    using Cons.prems(2) by (auto simp: quoted_src_in_def)
  ultimately show ?case using Cons by simp
qed

lemma processImages_at:
  assumes "protect_pictures [] h = (blocks, h1)"
    and "scan_imgs h1 = pre @ Img b src a # rest"
  shows "html (processImages h D bp S) =
     restore_blocks 0 blocks
       (render_toks D (normalize_prefix bp) S 0 pre @
        rewrite_img D (normalize_prefix bp) S (Suc (count_imgs pre)) b src a @
        render_toks D (normalize_prefix bp) S (Suc (count_imgs pre)) rest)"
  using assms by (simp add: processImages_def replace_imgs_def render_toks_append Let_def)

lemma picture_or_img_picture:
  assumes "toLowerCase (extname src) \<in> {''.png'', ''.jpg'', ''.jpeg''}"
  shows "picture_or_img p S b src na =
     picture_block (expected_sources p S src) (img_tag b (served_path p src src) na)"
  using assms
  unfolding picture_or_img_def expected_sources_def picture_block_def source_tag_def img_tag_def
    served_path_def sp_media_def strip_slash_def Let_def
  by auto

lemma picture_or_img_plain:
  assumes "toLowerCase (extname src) \<notin> {''.png'', ''.jpg'', ''.jpeg''}"
  shows "picture_or_img p S b src na = img_tag b (served_path p src src) na"
  using assms
  unfolding picture_or_img_def img_tag_def served_path_def Let_def
  by auto

text \<open>The replacement of a match, with the attribute text behind its \<open>src\<close> made
  explicit: a picture block around the image for the three extensions, the image alone
  otherwise.\<close>

lemma rewrite_img_rendered:
  "rewrite_img D p S i b src a =
     (if toLowerCase (extname src) \<in> {''.png'', ''.jpg'', ''.jpeg''}
      then picture_block (expected_sources p S src)
             (img_tag b (served_path p src src) (new_after D i b src a))
      else img_tag b (served_path p src src) (new_after D i b src a))"
proof (cases "toLowerCase (extname src) \<in> {''.png'', ''.jpg'', ''.jpeg''}")
  case True
  from picture_or_img_picture [OF True] True show ?thesis
    unfolding rewrite_img_def by (simp only: if_True)
next
  case False
  from picture_or_img_plain [OF False] False show ?thesis
    unfolding rewrite_img_def by (simp only: if_False)
qed

subsection \<open>The picture conversion\<close>

text \<open>
  Claim C1 says that every \<open>img\<close> tag whose \<open>src\<close> has the extension \<open>.png\<close>,
  \<open>.jpg\<close> or \<open>.jpeg\<close> is replaced by a picture block. The rewriter does not read the
  attributes of a tag: its pattern takes the quoted value behind a \<open>src=\<close> of the tag,
  also behind an attribute name that ends in \<open>src\<close>, and decides on that value. In the
  tag below it takes \<open>b.gif\<close>, so the tag with the source \<open>a.png\<close> is not converted
  (and the prefix goes to the other attribute).
\<close>

theorem processImages_png_not_converted_counterexample:
  \<open>html (processImages ''<img src="a.png" data-src="b.gif">'' [] ''/lp'' {}) =
     ''<img src="a.png" data-src="/lp/b.gif">''\<close>
  by code_simp

text \<open>
  Claim C1, amended. Every match of the \<open>img\<close> pattern outside the picture blocks of
  the input whose captured value has the extension \<open>.png\<close>, \<open>.jpg\<close> or \<open>.jpeg\<close> in
  any case of letters (as \<open>path.extname\<close> reads it) is replaced by a picture block: five
  sources and the image when the captured path without its leading slash is in the
  SP-Image Set, three for the small viewport (AVIF, WebP, the \<open>-sp\<close> file in the
  original format) before AVIF and WebP of the PC file; two sources (AVIF, WebP) and the
  image otherwise.
\<close>

theorem processImages_picture_sources:
  assumes "protect_pictures [] h = (blocks, h1)"
    and "scan_imgs h1 = pre @ Img b src a # rest"
    and "toLowerCase (extname src) \<in> {''.png'', ''.jpg'', ''.jpeg''}"
  shows "html (processImages h D bp S) =
       restore_blocks 0 blocks
         (render_toks D (normalize_prefix bp) S 0 pre @
          picture_block (expected_sources (normalize_prefix bp) S src)
            (img_tag b (served_path (normalize_prefix bp) src src)
               (new_after D (Suc (count_imgs pre)) b src a)) @
          render_toks D (normalize_prefix bp) S (Suc (count_imgs pre)) rest)
     \<and> length (expected_sources (normalize_prefix bp) S src) = (if strip_slash src \<in> S then 5 else 2)"
proof -
  have "rewrite_img D (normalize_prefix bp) S (Suc (count_imgs pre)) b src a =
      picture_block (expected_sources (normalize_prefix bp) S src)
        (img_tag b (served_path (normalize_prefix bp) src src)
           (new_after D (Suc (count_imgs pre)) b src a))"
    unfolding rewrite_img_def using assms(3) by (rule picture_or_img_picture)
  with processImages_at [OF assms(1,2)] have "html (processImages h D bp S) =
       restore_blocks 0 blocks
         (render_toks D (normalize_prefix bp) S 0 pre @
          picture_block (expected_sources (normalize_prefix bp) S src)
            (img_tag b (served_path (normalize_prefix bp) src src)
               (new_after D (Suc (count_imgs pre)) b src a)) @
          render_toks D (normalize_prefix bp) S (Suc (count_imgs pre)) rest)"
    by simp
  moreover have "length (expected_sources (normalize_prefix bp) S src) = (if strip_slash src \<in> S then 5 else 2)"
    by (simp add: expected_sources_def Let_def)
  ultimately show ?thesis by simp
qed

text \<open>An instance with a picture block in the input, whose nested image stays as it
  is, and a source with an upper-case extension.\<close>

lemma ex1_protect:
  \<open>protect_pictures [] ''<picture><img src="p.png"></picture><img src="Banner.JPG">'' =
     ([''<picture><img src="p.png"></picture>''], ''__PICTURE_PLACEHOLDER_0__<img src="Banner.JPG">'')\<close>
  by code_simp

lemma ex1_scan:
  \<open>scan_imgs ''__PICTURE_PLACEHOLDER_0__<img src="Banner.JPG">'' =
     map Lit ''__PICTURE_PLACEHOLDER_0__'' @ Img '' '' ''Banner.JPG'' [] # []\<close>
  by code_simp

lemma ex1_ext: \<open>toLowerCase (extname ''Banner.JPG'') \<in> {''.png'', ''.jpg'', ''.jpeg''}\<close>
  by code_simp

theorem processImages_picture_sources_witness:
  \<open>html (processImages ''<picture><img src="p.png"></picture><img src="Banner.JPG">'' [] ''/lp/'' {''Banner.JPG''}) =
     ''<picture><img src="p.png"></picture><picture>'' @ nl @
     ''  <source media="(max-width: 767px)" srcset="/lp/Banner-sp.avif" type="image/avif">'' @ nl @
     ''  <source media="(max-width: 767px)" srcset="/lp/Banner-sp.webp" type="image/webp">'' @ nl @
     ''  <source media="(max-width: 767px)" srcset="/lp/Banner-sp.jpg">'' @ nl @
     ''  <source srcset="/lp/Banner.avif" type="image/avif">'' @ nl @
     ''  <source srcset="/lp/Banner.webp" type="image/webp">'' @ nl @
     ''  <img src="/lp/Banner.JPG">'' @ nl @
     ''</picture>''
   \<and> length (expected_sources (normalize_prefix ''/lp/'') {''Banner.JPG''} ''Banner.JPG'') = 5\<close>
proof -
  note t = processImages_picture_sources [OF ex1_protect ex1_scan ex1_ext, of "[]" "''/lp/''" "{''Banner.JPG''}"]
  have e: \<open>restore_blocks 0 [''<picture><img src="p.png"></picture>'']
         (render_toks [] (normalize_prefix ''/lp/'') {''Banner.JPG''} 0 (map Lit ''__PICTURE_PLACEHOLDER_0__'') @
          picture_block (expected_sources (normalize_prefix ''/lp/'') {''Banner.JPG''} ''Banner.JPG'')
            (img_tag '' '' (served_path (normalize_prefix ''/lp/'') ''Banner.JPG'' ''Banner.JPG'')
               (new_after [] (Suc (count_imgs (map Lit ''__PICTURE_PLACEHOLDER_0__''))) '' '' ''Banner.JPG'' [])) @
          render_toks [] (normalize_prefix ''/lp/'') {''Banner.JPG''}
            (Suc (count_imgs (map Lit ''__PICTURE_PLACEHOLDER_0__''))) []) =
     ''<picture><img src="p.png"></picture><picture>'' @ nl @
     ''  <source media="(max-width: 767px)" srcset="/lp/Banner-sp.avif" type="image/avif">'' @ nl @
     ''  <source media="(max-width: 767px)" srcset="/lp/Banner-sp.webp" type="image/webp">'' @ nl @
     ''  <source media="(max-width: 767px)" srcset="/lp/Banner-sp.jpg">'' @ nl @
     ''  <source srcset="/lp/Banner.avif" type="image/avif">'' @ nl @
     ''  <source srcset="/lp/Banner.webp" type="image/webp">'' @ nl @
     ''  <img src="/lp/Banner.JPG">'' @ nl @
     ''</picture>''\<close>
    by code_simp
  have "strip_slash ''Banner.JPG'' \<in> {''Banner.JPG''}"
    by (simp add: strip_slash_def)
  with t [THEN conjunct2] have n: "length (expected_sources (normalize_prefix ''/lp/'') {''Banner.JPG''} ''Banner.JPG'') = 5"
    by (simp only: if_True)
  from t [THEN conjunct1] e have m: \<open>html (processImages ''<picture><img src="p.png"></picture><img src="Banner.JPG">'' [] ''/lp/'' {''Banner.JPG''}) =
     ''<picture><img src="p.png"></picture><picture>'' @ nl @
     ''  <source media="(max-width: 767px)" srcset="/lp/Banner-sp.avif" type="image/avif">'' @ nl @
     ''  <source media="(max-width: 767px)" srcset="/lp/Banner-sp.webp" type="image/webp">'' @ nl @
     ''  <source media="(max-width: 767px)" srcset="/lp/Banner-sp.jpg">'' @ nl @
     ''  <source srcset="/lp/Banner.avif" type="image/avif">'' @ nl @
     ''  <source srcset="/lp/Banner.webp" type="image/webp">'' @ nl @
     ''  <img src="/lp/Banner.JPG">'' @ nl @
     ''</picture>''\<close>
    by (rule trans)
  from m n show ?thesis
    by (rule conjI)
qed

subsection \<open>Lazy loading\<close>

text \<open>
  Claim C3 says that every \<open>img\<close> after the first that has no \<open>loading\<close> attribute
  gets \<open>loading="lazy"\<close>. The rewriter tests the text of the tag for \<open>loading=\<close>,
  not its attributes: the second image below has no \<open>loading\<close> attribute, the text
  \<open>data-loading=\<close> passes for one, and the image comes back without lazy loading.
\<close>

theorem processImages_not_lazy_counterexample:
  \<open>html (processImages ''<img src="a.gif"><img src="c.gif" data-loading="1">'' [] [] {}) =
     ''<img src="a.gif"><img src="c.gif" data-loading="1">''\<close>
  by code_simp

text \<open>
  Claim C3, amended. Among the matches of the \<open>img\<close> pattern outside the picture blocks
  of the input, the first in document order is emitted without any added \<open>loading\<close>
  attribute, and every later one whose text around the captured \<open>src\<close> holds no
  \<open>loading=\<close> (in any case of letters, also as the end of a longer attribute name or
  inside a value) is emitted with \<open>loading="lazy"\<close> as the last attribute of its
  \<open>img\<close> element; a later one whose text holds \<open>loading=\<close> gets none.
\<close>

theorem processImages_lazy_loading:
  assumes "protect_pictures [] h = (blocks, h1)"
    and "scan_imgs h1 = pre @ Img b src a # rest"
  shows \<open>html (processImages h D bp S) =
       restore_blocks 0 blocks
         (render_toks D (normalize_prefix bp) S 0 pre @
          (if toLowerCase (extname src) \<in> {''.png'', ''.jpg'', ''.jpeg''}
           then picture_block (expected_sources (normalize_prefix bp) S src)
                  (img_tag b (served_path (normalize_prefix bp) src src)
                     (a @ dim_attrs D b src a @
                      (if count_imgs pre = 0 then []
                       else if ci_contains ''loading='' (b @ a) then []
                       else '' loading="lazy"'')))
           else img_tag b (served_path (normalize_prefix bp) src src)
                  (a @ dim_attrs D b src a @
                   (if count_imgs pre = 0 then []
                    else if ci_contains ''loading='' (b @ a) then []
                    else '' loading="lazy"''))) @
          render_toks D (normalize_prefix bp) S (Suc (count_imgs pre)) rest)\<close>
proof -
  have na: \<open>new_after D (Suc (count_imgs pre)) b src a =
      a @ dim_attrs D b src a @
      (if count_imgs pre = 0 then []
       else if ci_contains ''loading='' (b @ a) then []
       else '' loading="lazy"'')\<close>
    by (simp add: new_after_def lazy_attr_def)
  from processImages_at [OF assms] show ?thesis
    by (simp only: rewrite_img_rendered na)
qed

text \<open>An instance with a picture block in the input: its nested image does not count,
  the first image behind it is not lazy, the second is.\<close>

lemma ex3_protect:
  \<open>protect_pictures [] ''<picture><img src="p.gif"></picture><img src="a.gif"><img src="b.gif">'' =
     ([''<picture><img src="p.gif"></picture>''], ''__PICTURE_PLACEHOLDER_0__<img src="a.gif"><img src="b.gif">'')\<close>
  by code_simp

lemma ex3_scan_second:
  \<open>scan_imgs ''__PICTURE_PLACEHOLDER_0__<img src="a.gif"><img src="b.gif">'' =
     (map Lit ''__PICTURE_PLACEHOLDER_0__'' @ [Img '' '' ''a.gif'' []]) @ Img '' '' ''b.gif'' [] # []\<close>
  by code_simp

theorem processImages_lazy_loading_witness:
  \<open>html (processImages ''<picture><img src="p.gif"></picture><img src="a.gif"><img src="b.gif">'' [] [] {}) =
     ''<picture><img src="p.gif"></picture><img src="a.gif"><img src="b.gif" loading="lazy">''\<close>
proof -
  note t = processImages_lazy_loading [OF ex3_protect ex3_scan_second, of "[]" "[]" "{}"]
  have \<open>restore_blocks 0 [''<picture><img src="p.gif"></picture>'']
         (render_toks [] (normalize_prefix []) {} 0 (map Lit ''__PICTURE_PLACEHOLDER_0__'' @ [Img '' '' ''a.gif'' []]) @
          (if toLowerCase (extname ''b.gif'') \<in> {''.png'', ''.jpg'', ''.jpeg''}
           then picture_block (expected_sources (normalize_prefix []) {} ''b.gif'')
                  (img_tag '' '' (served_path (normalize_prefix []) ''b.gif'' ''b.gif'')
                     ([] @ dim_attrs [] '' '' ''b.gif'' [] @
                      (if count_imgs (map Lit ''__PICTURE_PLACEHOLDER_0__'' @ [Img '' '' ''a.gif'' []]) = 0 then []
                       else if ci_contains ''loading='' ('' '' @ []) then []
                       else '' loading="lazy"'')))
           else img_tag '' '' (served_path (normalize_prefix []) ''b.gif'' ''b.gif'')
                  ([] @ dim_attrs [] '' '' ''b.gif'' [] @
                   (if count_imgs (map Lit ''__PICTURE_PLACEHOLDER_0__'' @ [Img '' '' ''a.gif'' []]) = 0 then []
                    else if ci_contains ''loading='' ('' '' @ []) then []
                    else '' loading="lazy"''))) @
          render_toks [] (normalize_prefix []) {}
            (Suc (count_imgs (map Lit ''__PICTURE_PLACEHOLDER_0__'' @ [Img '' '' ''a.gif'' []]))) []) =
       ''<picture><img src="p.gif"></picture><img src="a.gif"><img src="b.gif" loading="lazy">''\<close>
    by code_simp
  with t show ?thesis
    by (rule trans)
qed

subsection \<open>Width and height already there\<close>

text \<open>
  Claim C4 says that an \<open>img\<close> that carries a width and a height attribute keeps them
  and gets none added. The rewriter tests the text of the tag for \<open>width=\<close> and
  \<open>height=\<close>: written with a space before the equals sign, the two attributes of the
  tag below are not seen, the table is consulted and a second pair is appended.
\<close>

theorem processImages_dimensions_added_counterexample:
  \<open>html (processImages ''<img src="a.gif" width ="1" height ="2">''
       [(''a.gif'', \<lparr>width = ''640'', height = ''480''\<rparr>)] [] {}) =
     ''<img src="a.gif" width ="1" height ="2" width="640" height="480">''\<close>
  by code_simp

text \<open>
  Claim C4, amended. For a match of the \<open>img\<close> pattern outside the picture blocks of
  the input whose text around the captured \<open>src\<close> holds both \<open>width=\<close> and
  \<open>height=\<close> (in any case of letters, the equals sign directly behind the name), the
  Image Dimension Table is not consulted: no width or height attribute is appended, the
  text on both sides of the \<open>src\<close> is emitted as it stands, with at most the
  lazy-loading attribute behind it, and this is so for every table.
\<close>

theorem processImages_keeps_dimensions:
  assumes "protect_pictures [] h = (blocks, h1)"
    and "scan_imgs h1 = pre @ Img b src a # rest"
    and "ci_contains ''width='' (b @ a)"
    and "ci_contains ''height='' (b @ a)"
  shows \<open>dim_attrs D b src a = [] \<and>
     html (processImages h D bp S) =
       restore_blocks 0 blocks
         (render_toks D (normalize_prefix bp) S 0 pre @
          (if toLowerCase (extname src) \<in> {''.png'', ''.jpg'', ''.jpeg''}
           then picture_block (expected_sources (normalize_prefix bp) S src)
                  (img_tag b (served_path (normalize_prefix bp) src src)
                     (a @ (if count_imgs pre = 0 then []
                           else if ci_contains ''loading='' (b @ a) then []
                           else '' loading="lazy"'')))
           else img_tag b (served_path (normalize_prefix bp) src src)
                  (a @ (if count_imgs pre = 0 then []
                        else if ci_contains ''loading='' (b @ a) then []
                        else '' loading="lazy"''))) @
          render_toks D (normalize_prefix bp) S (Suc (count_imgs pre)) rest)\<close>
proof -
  from assms(3,4) have d: "dim_attrs D b src a = []"
    by (simp add: dim_attrs_def)
  then have na: \<open>new_after D (Suc (count_imgs pre)) b src a =
      a @ (if count_imgs pre = 0 then []
           else if ci_contains ''loading='' (b @ a) then []
           else '' loading="lazy"'')\<close>
    by (simp add: new_after_def lazy_attr_def)
  from processImages_at [OF assms(1,2)] have \<open>html (processImages h D bp S) =
       restore_blocks 0 blocks
         (render_toks D (normalize_prefix bp) S 0 pre @
          (if toLowerCase (extname src) \<in> {''.png'', ''.jpg'', ''.jpeg''}
           then picture_block (expected_sources (normalize_prefix bp) S src)
                  (img_tag b (served_path (normalize_prefix bp) src src)
                     (a @ (if count_imgs pre = 0 then []
                           else if ci_contains ''loading='' (b @ a) then []
                           else '' loading="lazy"'')))
           else img_tag b (served_path (normalize_prefix bp) src src)
                  (a @ (if count_imgs pre = 0 then []
                        else if ci_contains ''loading='' (b @ a) then []
                        else '' loading="lazy"''))) @
          render_toks D (normalize_prefix bp) S (Suc (count_imgs pre)) rest)\<close>
    by (simp only: rewrite_img_rendered na)
  with d show ?thesis
    by (rule conjI)
qed

text \<open>An instance with a picture block in the input and a table that knows the image.\<close>

lemma ex4_protect:
  \<open>protect_pictures [] ''<picture><img src="p.gif"></picture><img width="1" src="a.png" height="2">'' =
     ([''<picture><img src="p.gif"></picture>''], ''__PICTURE_PLACEHOLDER_0__<img width="1" src="a.png" height="2">'')\<close>
  by code_simp

lemma ex4_scan:
  \<open>scan_imgs ''__PICTURE_PLACEHOLDER_0__<img width="1" src="a.png" height="2">'' =
     map Lit ''__PICTURE_PLACEHOLDER_0__'' @ Img '' width="1" '' ''a.png'' '' height="2"'' # []\<close>
  by code_simp

lemma ex4_width: \<open>ci_contains ''width='' ('' width="1" '' @ '' height="2"'')\<close>
  by code_simp

lemma ex4_height: \<open>ci_contains ''height='' ('' width="1" '' @ '' height="2"'')\<close>
  by code_simp

theorem processImages_keeps_dimensions_witness:
  \<open>dim_attrs [(''a.png'', \<lparr>width = ''640'', height = ''480''\<rparr>)] '' width="1" '' ''a.png'' '' height="2"'' = [] \<and>
   html (processImages ''<picture><img src="p.gif"></picture><img width="1" src="a.png" height="2">''
      [(''a.png'', \<lparr>width = ''640'', height = ''480''\<rparr>)] [] {}) =
     ''<picture><img src="p.gif"></picture><picture>'' @ nl @
     ''  <source srcset="a.avif" type="image/avif">'' @ nl @
     ''  <source srcset="a.webp" type="image/webp">'' @ nl @
     ''  <img width="1" src="a.png" height="2">'' @ nl @
     ''</picture>''\<close>
proof -
  note t = processImages_keeps_dimensions [OF ex4_protect ex4_scan ex4_width ex4_height,
      of "[(''a.png'', \<lparr>width = ''640'', height = ''480''\<rparr>)]" "[]" "{}"]
  have \<open>restore_blocks 0 [''<picture><img src="p.gif"></picture>'']
         (render_toks [(''a.png'', \<lparr>width = ''640'', height = ''480''\<rparr>)] (normalize_prefix []) {} 0
            (map Lit ''__PICTURE_PLACEHOLDER_0__'') @
          (if toLowerCase (extname ''a.png'') \<in> {''.png'', ''.jpg'', ''.jpeg''}
           then picture_block (expected_sources (normalize_prefix []) {} ''a.png'')
                  (img_tag '' width="1" '' (served_path (normalize_prefix []) ''a.png'' ''a.png'')
                     ('' height="2"'' @ (if count_imgs (map Lit ''__PICTURE_PLACEHOLDER_0__'') = 0 then []
                           else if ci_contains ''loading='' ('' width="1" '' @ '' height="2"'') then []
                           else '' loading="lazy"'')))
           else img_tag '' width="1" '' (served_path (normalize_prefix []) ''a.png'' ''a.png'')
                  ('' height="2"'' @ (if count_imgs (map Lit ''__PICTURE_PLACEHOLDER_0__'') = 0 then []
                        else if ci_contains ''loading='' ('' width="1" '' @ '' height="2"'') then []
                        else '' loading="lazy"''))) @
          render_toks [(''a.png'', \<lparr>width = ''640'', height = ''480''\<rparr>)] (normalize_prefix []) {}
            (Suc (count_imgs (map Lit ''__PICTURE_PLACEHOLDER_0__''))) []) =
     ''<picture><img src="p.gif"></picture><picture>'' @ nl @
     ''  <source srcset="a.avif" type="image/avif">'' @ nl @
     ''  <source srcset="a.webp" type="image/webp">'' @ nl @
     ''  <img width="1" src="a.png" height="2">'' @ nl @
     ''</picture>''\<close>
    by code_simp
  with t [THEN conjunct2]
  have \<open>html (processImages ''<picture><img src="p.gif"></picture><img width="1" src="a.png" height="2">''
      [(''a.png'', \<lparr>width = ''640'', height = ''480''\<rparr>)] [] {}) =
     ''<picture><img src="p.gif"></picture><picture>'' @ nl @
     ''  <source srcset="a.avif" type="image/avif">'' @ nl @
     ''  <source srcset="a.webp" type="image/webp">'' @ nl @
     ''  <img width="1" src="a.png" height="2">'' @ nl @
     ''</picture>''\<close>
    by (rule trans)
  with t [THEN conjunct1] show ?thesis
    by (rule conjI)
qed

subsection \<open>The path prefix\<close>

text \<open>
  Claim C8. The \<open>src\<close> of every match of the \<open>img\<close> pattern is emitted as the served
  path: unchanged when it begins with \<open>/\<close> or with \<open>http\<close>, and otherwise with the
  path prefix (the configured base path without one trailing slash) and a slash before
  it when that prefix is not empty; this holds for the images converted to a picture block
  and for those left as plain \<open>img\<close> tags.
\<close>

theorem processImages_src_prefix:
  assumes "protect_pictures [] h = (blocks, h1)"
    and "scan_imgs h1 = pre @ Img b src a # rest"
  shows "html (processImages h D bp S) =
       restore_blocks 0 blocks
         (render_toks D (normalize_prefix bp) S 0 pre @
          (if toLowerCase (extname src) \<in> {''.png'', ''.jpg'', ''.jpeg''}
           then picture_block (expected_sources (normalize_prefix bp) S src)
                  (img_tag b (served_path (normalize_prefix bp) src src)
                     (new_after D (Suc (count_imgs pre)) b src a))
           else img_tag b (served_path (normalize_prefix bp) src src)
                  (new_after D (Suc (count_imgs pre)) b src a)) @
          render_toks D (normalize_prefix bp) S (Suc (count_imgs pre)) rest)"
proof -
  have "rewrite_img D (normalize_prefix bp) S (Suc (count_imgs pre)) b src a =
      (if toLowerCase (extname src) \<in> {''.png'', ''.jpg'', ''.jpeg''}
       then picture_block (expected_sources (normalize_prefix bp) S src)
              (img_tag b (served_path (normalize_prefix bp) src src)
                 (new_after D (Suc (count_imgs pre)) b src a))
       else img_tag b (served_path (normalize_prefix bp) src src)
              (new_after D (Suc (count_imgs pre)) b src a))"
  proof (cases "toLowerCase (extname src) \<in> {''.png'', ''.jpg'', ''.jpeg''}")
    case True
    from picture_or_img_picture [OF True] True show ?thesis
      unfolding rewrite_img_def by (simp only: if_True)
  next
    case False
    from picture_or_img_plain [OF False] False show ?thesis
      unfolding rewrite_img_def by (simp only: if_False)
  qed
  with processImages_at [OF assms] show ?thesis
    by (simp only:)
qed

lemma ex8_protect:
  \<open>protect_pictures [] ''<img src="a.gif"><img src="/b.png">'' = ([], ''<img src="a.gif"><img src="/b.png">'')\<close>
  by code_simp

lemma ex8_scan:
  \<open>scan_imgs ''<img src="a.gif"><img src="/b.png">'' = [] @ Img '' '' ''a.gif'' [] # [Img '' '' ''/b.png'' []]\<close>
  by code_simp

theorem processImages_src_prefix_witness:
  \<open>html (processImages ''<img src="a.gif"><img src="/b.png">'' [] ''/lp/'' {}) =
     ''<img src="/lp/a.gif"><picture>'' @ nl @
     ''  <source srcset="/b.avif" type="image/avif">'' @ nl @
     ''  <source srcset="/b.webp" type="image/webp">'' @ nl @
     ''  <img src="/b.png" loading="lazy">'' @ nl @
     ''</picture>''\<close>
proof -
  note t = processImages_src_prefix [OF ex8_protect ex8_scan, of "[]" "''/lp/''" "{}"]
  have \<open>restore_blocks 0 []
         (render_toks [] (normalize_prefix ''/lp/'') {} 0 [] @
          (if toLowerCase (extname ''a.gif'') \<in> {''.png'', ''.jpg'', ''.jpeg''}
           then picture_block (expected_sources (normalize_prefix ''/lp/'') {} ''a.gif'')
                  (img_tag '' '' (served_path (normalize_prefix ''/lp/'') ''a.gif'' ''a.gif'')
                     (new_after [] (Suc (count_imgs [])) '' '' ''a.gif'' []))
           else img_tag '' '' (served_path (normalize_prefix ''/lp/'') ''a.gif'' ''a.gif'')
                  (new_after [] (Suc (count_imgs [])) '' '' ''a.gif'' [])) @
          render_toks [] (normalize_prefix ''/lp/'') {} (Suc (count_imgs [])) [Img '' '' ''/b.png'' []]) =
     ''<img src="/lp/a.gif"><picture>'' @ nl @
     ''  <source srcset="/b.avif" type="image/avif">'' @ nl @
     ''  <source srcset="/b.webp" type="image/webp">'' @ nl @
     ''  <img src="/b.png" loading="lazy">'' @ nl @
     ''</picture>''\<close>
    by code_simp
  with t show ?thesis
    by (rule trans)
qed

subsection \<open>Tags without a quoted \<open>src\<close>\<close>

text \<open>
  Claim C10 says that an \<open>img\<close> tag whose \<open>src\<close> value is not in quotes is left as it
  is. The pattern asks only for \<open>src=\<close> and a quote somewhere in the tag, so the quoted
  value of another attribute whose name ends in \<open>src\<close> is taken for the source: the tag
  below is converted to a picture block for \<open>b.png\<close>.
\<close>

theorem processImages_unquoted_src_counterexample:
  \<open>html (processImages ''<img src=a.png data-src="b.png">'' [] [] {}) =
     ''<picture>'' @ nl @
     ''  <source srcset="b.avif" type="image/avif">'' @ nl @
     ''  <source srcset="b.webp" type="image/webp">'' @ nl @
     ''  <img src=a.png data-src="b.png">'' @ nl @
     ''</picture>''
   \<and> html (processImages ''<img src=a.png data-src="b.png">'' [] [] {}) \<noteq> ''<img src=a.png data-src="b.png">''\<close>
  by code_simp

text \<open>
  Claim C10, amended. A tag, or any text up to its closing \<open>>\<close>, in which no \<open>src=\<close>
  (in any case of letters, also as the end of a longer attribute name or inside a value)
  stands directly before a quote is copied unchanged: no width, height or loading
  attribute, no picture block and no path prefix. The scan has to reach the start of the
  tag, that is, the tag does not lie inside an earlier match.
\<close>

theorem processImages_unquoted_tag_unchanged:
  assumes "protect_pictures [] h = (blocks, h1)"
    and "scan_imgs h1 = pre @ scan_imgs (t @ CHR ''>'' # post)"
    and "CHR ''>'' \<notin> set t"
    and "\<not> quoted_src_in t"
  shows "html (processImages h D bp S) =
       restore_blocks 0 blocks
         (render_toks D (normalize_prefix bp) S 0 pre @
          t @ ''>'' @
          render_toks D (normalize_prefix bp) S (count_imgs pre) (scan_imgs post))"
proof -
  from assms(3,4) have "scan_imgs (t @ CHR ''>'' # post) = map Lit (t @ ''>'') @ scan_imgs post"
    by (rule scan_imgs_unmatched)
  with assms(2) have "scan_imgs h1 = pre @ map Lit (t @ ''>'') @ scan_imgs post"
    by simp
  then have "replace_imgs D (normalize_prefix bp) S h1 =
      render_toks D (normalize_prefix bp) S 0 pre @
      t @ ''>'' @
      render_toks D (normalize_prefix bp) S (count_imgs pre) (scan_imgs post)"
    by (simp only: replace_imgs_def render_toks_append render_toks_Lit count_imgs_Lit
        add_0 add_0_right append_assoc)
  with assms(1) show ?thesis
    by (simp add: processImages_def Let_def)
qed

lemma ex10_protect:
  \<open>protect_pictures [] ''<img src="a.gif"><img src=b.png alt=x><img src="c.gif">'' =
     ([], ''<img src="a.gif"><img src=b.png alt=x><img src="c.gif">'')\<close>
  by code_simp

lemma ex10_scan:
  \<open>scan_imgs ''<img src="a.gif"><img src=b.png alt=x><img src="c.gif">'' =
     [Img '' '' ''a.gif'' []] @ scan_imgs (''<img src=b.png alt=x'' @ CHR ''>'' # ''<img src="c.gif">'')\<close>
  by code_simp

lemma ex10_tag: \<open>CHR ''>'' \<notin> set ''<img src=b.png alt=x''\<close>
  by simp

lemma ex10_unquoted: \<open>\<not> quoted_src_in ''<img src=b.png alt=x''\<close>
  by code_simp

theorem processImages_unquoted_tag_unchanged_witness:
  \<open>html (processImages ''<img src="a.gif"><img src=b.png alt=x><img src="c.gif">'' [] ''/lp'' {}) =
     ''<img src="/lp/a.gif"><img src=b.png alt=x><img src="/lp/c.gif" loading="lazy">''\<close>
proof -
  note t = processImages_unquoted_tag_unchanged [OF ex10_protect ex10_scan ex10_tag ex10_unquoted,
      of "[]" "''/lp''" "{}"]
  have \<open>restore_blocks 0 []
         (render_toks [] (normalize_prefix ''/lp'') {} 0 [Img '' '' ''a.gif'' []] @
          ''<img src=b.png alt=x'' @ ''>'' @
          render_toks [] (normalize_prefix ''/lp'') {} (count_imgs [Img '' '' ''a.gif'' []])
            (scan_imgs ''<img src="c.gif">'')) =
     ''<img src="/lp/a.gif"><img src=b.png alt=x><img src="/lp/c.gif" loading="lazy">''\<close>
    by code_simp
  with t show ?thesis
    by (rule trans)
qed

subsection \<open>Picture blocks already in the document\<close>

text \<open>A replacement string without a dollar sign is inserted as it is.\<close>

lemma get_substitution_plain:
  "CHR ''$'' \<notin> set r \<Longrightarrow> get_substitution m b a r = r"
  by (induction m b a r rule: get_substitution.induct) auto

text \<open>A single protected block without a dollar sign comes back unchanged, in the place
  of the first occurrence of its placeholder.\<close>

lemma processImages_single_block:
  assumes "protect_pictures [] h = ([block], h1)"
    and "find_sub (placeholder 0) (replace_imgs D (normalize_prefix bp) S h1) = Some (b, a)"
    and "CHR ''$'' \<notin> set block"
  shows "html (processImages h D bp S) = b @ block @ a"
  using assms by (simp add: processImages_def Let_def js_replace_def get_substitution_plain)

text \<open>
  Claim C2 says that a picture block of the input comes back character for character.
  The blocks are put back with \<open>String.prototype.replace\<close> and the block as the
  replacement string, where \<open>$$\<close>, \<open>$&\<close>, \<open>$`\<close> and \<open>$'\<close> are patterns: in the
  document below the \<open>$'\<close> that ends the \<open>alt\<close> text is replaced by the text that
  follows the block.
\<close>

theorem processImages_dollar_in_picture:
  \<open>html (processImages ''<picture><img src="a.png" alt='US$'></picture><p>x</p>'' [] [] {}) =
     ''<picture><img src="a.png" alt='US<p>x</p>></picture><p>x</p>''\<close>
  by code_simp

subsection \<open>The meta/OGP generator on the empty configuration\<close>

text \<open>
  Claim C9. For the empty configuration map the meta/OGP generator returns a fragment
  that is not empty: the comment line and exactly three meta tags with their default
  values, \<open>og:type\<close> website, \<open>og:locale\<close> ja_JP and \<open>twitter:card\<close>
  summary_large_image.
\<close>

theorem generateMetaTags_empty:
  "generateMetaTags Map.empty = default_meta \<and> generateMetaTags Map.empty \<noteq> []"
  by code_simp

theorem generateMetaTags_empty_witness:
  \<open>generateMetaTags Map.empty =
     ''<!-- OGP -->'' @ nl @
     ''<meta property="og:type" content="website">'' @ nl @
     ''<meta property="og:locale" content="ja_JP">'' @ nl @
     ''<meta name="twitter:card" content="summary_large_image">''\<close>
  using generateMetaTags_empty by (simp add: default_meta_def)


subsection \<open>The escaping of the JSON-LD payloads\<close>

lemma escape_close_tags_head: "\<exists>t. escape_close_tags (c # r) = c # t"
  by (cases r) simp_all

lemma escape_close_tags_no_close: "\<not> str_includes (escape_close_tags s) ''</''"
proof (induction s rule: escape_close_tags.induct)
  case 1
  show ?case by simp
next
  case (2 c)
  show ?case by simp
next
  case (3 c d r)
  show ?case
  proof (cases "c = CHR ''<'' \<and> d = CHR ''/''")
    case True
    with 3 show ?thesis by (simp add: bslash_def)
  next
    case False
    obtain t where t: "escape_close_tags (d # r) = d # t"
      using escape_close_tags_head by blast
    from False 3 have "\<not> str_includes (escape_close_tags (d # r)) ''</''"
      by simp
    with False t show ?thesis by auto
  qed
qed

lemma startsWith_append: "startsWith s (p @ q) \<Longrightarrow> startsWith s p"
  by (induction s p rule: startsWith.induct) auto

lemma str_includes_append: "str_includes s (p @ q) \<Longrightarrow> str_includes s p"
  by (induction s) (auto dest: startsWith_append)

lemma escapeJsonLd_no_close:
  "\<not> str_includes (escapeJsonLd data) ''</'' \<and> \<not> str_includes (escapeJsonLd data) ''</script''"
proof -
  have a: "\<not> str_includes (escapeJsonLd data) ''</''"
    by (simp only: escapeJsonLd_def Let_def escape_close_tags_no_close not_False_eq_True)
  have "str_includes (escapeJsonLd data) (''</'' @ ''script'') \<Longrightarrow> str_includes (escapeJsonLd data) ''</''"
    by (rule str_includes_append)
  with a have "\<not> str_includes (escapeJsonLd data) ''</script''"
    by auto
  with a show ?thesis by (rule conjI)
qed

text \<open>
  Claim C6. For every configuration map and every document, the structured-data fragment
  is the sequence of its script elements, one per JSON-LD payload, and no payload holds
  \<open></\<close>, hence none holds \<open></script\<close>: each \<open></\<close> of the serialized JSON has become
  \<open><\/\<close>.
\<close>

theorem structured_data_payload_escaped:
  "generateStructuredData env h = join nl (map ld_script (structured_payloads env h)) \<and>
   (\<forall>p \<in> set (structured_payloads env h). \<not> str_includes p ''</'' \<and> \<not> str_includes p ''</script'')"
proof -
  have "generateStructuredData env h = join nl (map ld_script (structured_payloads env h))"
    by (simp add: generateStructuredData_def structured_payloads_def comp_def)
  moreover have "\<forall>p \<in> set (structured_payloads env h). \<not> str_includes p ''</'' \<and> \<not> str_includes p ''</script''"
    using escapeJsonLd_no_close by (auto simp: structured_payloads_def)
  ultimately show ?thesis by (rule conjI)
qed

lemma ex6_payloads:
  \<open>structured_payloads [''STRUCTURED_DATA_TYPE'' \<mapsto> ''Product'', ''SITE_TITLE'' \<mapsto> ''a</script>b''] [] =
     [''{"@context":"https://schema.org","@type":"Product","name":"a<'' @ [bslash] @ ''/script>b"}'']\<close>
  by code_simp

theorem structured_data_payload_escaped_witness:
  \<open>generateStructuredData [''STRUCTURED_DATA_TYPE'' \<mapsto> ''Product'', ''SITE_TITLE'' \<mapsto> ''a</script>b''] [] =
     ''<script type="application/ld+json">{"@context":"https://schema.org","@type":"Product","name":"a<'' @
     [bslash] @ ''/script>b"}</script>'' \<and>
   \<not> str_includes (''{"@context":"https://schema.org","@type":"Product","name":"a<'' @ [bslash] @ ''/script>b"}'')
     ''</script''\<close>
proof -
  note t = structured_data_payload_escaped
    [of "[''STRUCTURED_DATA_TYPE'' \<mapsto> ''Product'', ''SITE_TITLE'' \<mapsto> ''a</script>b'']" "[]"]
  from t [THEN conjunct1]
  have a: \<open>generateStructuredData [''STRUCTURED_DATA_TYPE'' \<mapsto> ''Product'', ''SITE_TITLE'' \<mapsto> ''a</script>b''] [] =
     ''<script type="application/ld+json">{"@context":"https://schema.org","@type":"Product","name":"a<'' @
     [bslash] @ ''/script>b"}</script>''\<close>
    by (simp add: ex6_payloads ld_script_def)
  from t [THEN conjunct2]
  have b: \<open>\<not> str_includes (''{"@context":"https://schema.org","@type":"Product","name":"a<'' @ [bslash] @ ''/script>b"}'')
     ''</script''\<close>
    by (simp only: ex6_payloads list.set ball_simps insert_iff empty_iff simp_thms)
  from a b show ?thesis by (rule conjI)
qed


subsection \<open>The empty configuration\<close>

text \<open>
  Claim C5 says that every generator returns an empty fragment for the empty
  configuration map. The meta/OGP generator always emits its three default tags.
\<close>

theorem empty_config_meta_counterexample:
  "generateMetaTags Map.empty \<noteq> []"
  by code_simp

lemma generateAnalyticsTags_empty: "generateAnalyticsTags Map.empty = []"
  by code_simp

lemma generateStructuredData_empty: "generateStructuredData Map.empty h = []"
  by (simp add: generateStructuredData_def has_def get_def)

lemma generateMetaTags_default: "generateMetaTags Map.empty = default_meta"
  by code_simp

lemma generateConversionCode_empty: "generateConversionCode render_times Map.empty = cv_open @ cv_close @ cv_end"
  by (simp add: generateConversionCode_def has_def get_def)

lemma assemble_head_empty: "assemble_head Map.empty False h = inject [] (inject default_meta h)"
  by (simp add: assemble_head_def head_before_structured_def Let_def has_def get_def
      generateFavicons_def generateStructuredData_empty generateAnalyticsTags_empty
      generateMetaTags_default)

text \<open>
  Claim C5, amended. For the empty configuration map the analytics generator and the
  structured-data generator return the empty fragment, and so does the favicon generator
  when there is no source icon; the meta/OGP generator returns its three default tags and
  the conversion-code generator its unconditional click-handler script. The assembled
  document is the input with the default meta fragment and an empty line injected before
  the first \<open></head>\<close>, then rewritten by the image rewriter, then with the references
  to \<open>style.css\<close> and \<open>script.js\<close> renamed to the minified files.
\<close>

theorem empty_config_build:
  \<open>generateAnalyticsTags Map.empty = [] \<and>
   generateStructuredData Map.empty h = [] \<and>
   generateFavicons False basePath = [] \<and>
   generateMetaTags Map.empty = default_meta \<and>
   generateConversionCode render_times Map.empty = cv_open @ cv_close @ cv_end \<and>
   build_html Map.empty D S False h =
     js_replace ''src="script.js"'' ''src="script.min.js"''
       (js_replace ''href="style.css"'' ''href="style.min.css"''
          (html (processImages (inject [] (inject default_meta h)) D [] S)))\<close>
proof -
  have \<open>build_html Map.empty D S False h =
     js_replace ''src="script.js"'' ''src="script.min.js"''
       (js_replace ''href="style.css"'' ''href="style.min.css"''
          (html (processImages (inject [] (inject default_meta h)) D [] S)))\<close>
    by (simp add: build_html_def Let_def get_def normalize_prefix_def assemble_head_empty)
  moreover have "generateFavicons False basePath = []"
    by (simp add: generateFavicons_def)
  ultimately show ?thesis
    using generateAnalyticsTags_empty generateStructuredData_empty generateMetaTags_default
      generateConversionCode_empty
    by (intro conjI)
qed

theorem empty_config_build_witness:
  \<open>build_html Map.empty [] {} False ''<head><link href="style.css"></head><img src="a.gif">'' =
     ''<head><link href="style.min.css"><!-- OGP -->'' @ nl @
     ''<meta property="og:type" content="website">'' @ nl @
     ''<meta property="og:locale" content="ja_JP">'' @ nl @
     ''<meta name="twitter:card" content="summary_large_image">'' @ nl @ nl @
     ''</head><img src="a.gif">''\<close>
proof -
  note t = empty_config_build [of "''<head><link href=\"style.css\"></head><img src=\"a.gif\">''" "[]" "id" "[]" "{}"]
  have \<open>js_replace ''src="script.js"'' ''src="script.min.js"''
       (js_replace ''href="style.css"'' ''href="style.min.css"''
          (html (processImages (inject [] (inject default_meta ''<head><link href="style.css"></head><img src="a.gif">'')) [] [] {}))) =
     ''<head><link href="style.min.css"><!-- OGP -->'' @ nl @
     ''<meta property="og:type" content="website">'' @ nl @
     ''<meta property="og:locale" content="ja_JP">'' @ nl @
     ''<meta name="twitter:card" content="summary_large_image">'' @ nl @ nl @
     ''</head><img src="a.gif">''\<close>
    by code_simp
  with t [THEN conjunct2, THEN conjunct2, THEN conjunct2, THEN conjunct2, THEN conjunct2]
  show ?thesis
    by (rule trans)
qed

subsection \<open>The injection before the head marker\<close>

text \<open>A fragment without a dollar sign lands directly before the first marker.\<close>

lemma inject_before_marker:
  assumes "find_sub ''</head>'' h = Some (b, a)" and "CHR ''$'' \<notin> set fragment"
  shows "inject fragment h = b @ fragment @ nl @ ''</head>'' @ a"
proof -
  from assms(2) have "CHR ''$'' \<notin> set (fragment @ nl @ ''</head>'')"
    by (simp add: nl_def)
  then have "get_substitution ''</head>'' b a (fragment @ nl @ ''</head>'') = fragment @ nl @ ''</head>''"
    by (rule get_substitution_plain)
  with assms(1) show ?thesis
    by (simp add: inject_def js_replace_def)
qed

text \<open>
  Claim C7 says that the fragments are injected directly before the marker, in the order
  meta/OGP, analytics, favicon, structured data. The injections are
  \<open>String.prototype.replace\<close> calls with the fragment in the replacement string, where
  \<open>$&\<close> stands for the matched marker: with the description below, whose ampersand
  the HTML escaping leaves behind the dollar sign, the meta fragment is injected with the
  marker inside its first tag, and the analytics injection that follows lands there, inside
  the meta fragment.
\<close>

theorem assemble_head_dollar_in_fragment:
  \<open>assemble_head [''SITE_DESCRIPTION'' \<mapsto> ''Cash$&Carry''] False ''<head></head>'' =
     ''<head><!-- OGP -->'' @ nl @
     ''<meta name="description" content="Cash'' @ nl @
     ''</head>amp;Carry">'' @ nl @
     ''<meta property="og:type" content="website">'' @ nl @
     ''<meta property="og:description" content="Cash</head>amp;Carry">'' @ nl @
     ''<meta property="og:locale" content="ja_JP">'' @ nl @
     ''<meta name="twitter:card" content="summary_large_image">'' @ nl @
     ''<meta name="twitter:description" content="Cash</head>amp;Carry">'' @ nl @
     ''</head>''\<close>
  by code_simp

end
